theory Spec2Isabelle
  imports Complex_Main "HOL-Library.Sublist" "HOL-Library.Extended_Nat"
begin

section \<open>Process registry (process-registry.js)\<close>

text \<open>
  The strings of commands, paths, ids and output are modelled as \<^typ>\<open>string\<close> (lists of
  code units, restricted to the 8-bit range of \<^typ>\<open>char\<close>); \<open>length\<close> is the JavaScript
  \<open>.length\<close>. Key names and the text written to an input handle are lists of UTF-16 code
  units (see \<open>ustring\<close> below). An optional field that may also hold \<open>null\<close> has the three
  values of \<open>js_opt\<close>.
\<close>

datatype 'a js_opt = Undefined | Null | Val 'a

definition MAX_OUTPUT_CHARS :: nat where
  "MAX_OUTPUT_CHARS = 200000"

definition TAIL_CHARS :: nat where
  "TAIL_CHARS = 4000"

text \<open>
  Text written to an input handle is kept as UTF-16 code units, each a number: a key name
  sent by the broker may hold any code unit. \<open>units\<close> gives the code units of a string
  of the model.
\<close>

type_synonym ustring = "nat list"

definition units :: "string \<Rightarrow> ustring" where
  "units s = map of_char s"

text \<open>
  A \<open>Writable\<close> is modelled by the chunks written to it so far, oldest first.
  The field \<open>id\<close> of the source is \<open>sid\<close> here (\<open>id\<close> is the identity function of HOL).
\<close>

type_synonym writable = "ustring list"

record ProcessSession =
  sid :: string
  command :: string
  pid :: "nat option"
  startedAt :: nat
  cwd :: string
  exited :: bool
  exitCode :: "int js_opt"
  exitSignal :: "string js_opt"
  backgrounded :: bool
  aggregated :: string
  tail :: string
  maxOutputChars :: nat
  stdin :: "writable option"

text \<open>The private map \<open>#sessions\<close>: session id to session object.\<close>

type_synonym registry = "string \<rightharpoonup> ProcessSession"

text \<open>
  \<open>addSession\<close>: the slug returned by \<open>#createSessionSlug\<close> (random, retried until it is
  not a key of the map) and the clock reading \<open>Date.now()\<close> are parameters.
\<close>

definition newSession :: "string \<Rightarrow> string \<Rightarrow> string \<Rightarrow> nat option \<Rightarrow> nat \<Rightarrow> ProcessSession" where
  "newSession slug cmd dir p now =
     \<lparr> sid = slug, command = cmd, pid = p, startedAt = now, cwd = dir,
       exited = False, exitCode = Undefined, exitSignal = Undefined,
       backgrounded = False, aggregated = [], tail = [],
       maxOutputChars = MAX_OUTPUT_CHARS, stdin = None \<rparr>"

definition addSession :: "registry \<Rightarrow> string \<Rightarrow> string \<Rightarrow> string \<Rightarrow> nat option \<Rightarrow> nat \<Rightarrow> ProcessSession \<times> registry" where
  "addSession reg slug cmd dir p now =
     (let session = newSession slug cmd dir p now in (session, reg(slug \<mapsto> session)))"

definition getSession :: "registry \<Rightarrow> string \<Rightarrow> ProcessSession option" where
  "getSession reg i = reg i"

definition markBackgrounded :: "registry \<Rightarrow> string \<Rightarrow> bool \<times> registry" where
  "markBackgrounded reg i =
     (case reg i of
        Some session \<Rightarrow> (True, reg(i \<mapsto> session\<lparr>backgrounded := True\<rparr>))
      | None \<Rightarrow> (False, reg))"

definition markExited :: "registry \<Rightarrow> string \<Rightarrow> int js_opt \<Rightarrow> string js_opt \<Rightarrow> bool \<times> registry" where
  "markExited reg i code sig =
     (case reg i of
        Some session \<Rightarrow>
          (True, reg(i \<mapsto> session\<lparr>exited := True, exitCode := code,
                                      exitSignal := sig, stdin := None\<rparr>))
      | None \<Rightarrow> (False, reg))"

text \<open>
  \<open>s.slice(-n)\<close> for \<open>n \<ge> 0\<close>: the start index is \<open>max (length s - n) 0\<close>, except that
  \<open>-0\<close> is \<open>0\<close>, so that \<open>slice(-0)\<close> is the whole string.
\<close>

definition slice_neg :: "nat \<Rightarrow> 'a list \<Rightarrow> 'a list" where
  "slice_neg n s = (if n = 0 then s else drop (length s - n) s)"

definition updateTail :: "ProcessSession \<Rightarrow> ProcessSession" where
  "updateTail session =
     (if length (aggregated session) \<le> TAIL_CHARS
      then session\<lparr>tail := aggregated session\<rparr>
      else session\<lparr>tail := slice_neg TAIL_CHARS (aggregated session)\<rparr>)"

definition appendOutput :: "registry \<Rightarrow> string \<Rightarrow> string \<Rightarrow> bool \<times> registry" where
  "appendOutput reg i chunk =
     (case reg i of
        None \<Rightarrow> (False, reg)
      | Some session \<Rightarrow>
          (let newOutput = aggregated session @ chunk;
               session' = (if length newOutput > maxOutputChars session
                           then session\<lparr>aggregated := slice_neg (maxOutputChars session) newOutput\<rparr>
                           else session\<lparr>aggregated := newOutput\<rparr>)
           in (True, reg(i \<mapsto> updateTail session'))))"

definition tail_of :: "registry \<Rightarrow> string \<Rightarrow> string" where
  "tail_of reg i = (case reg i of Some session \<Rightarrow> tail session | None \<Rightarrow> [])"


text \<open>The registry operations as data, and the registries reachable from the empty one.\<close>

datatype registry_op =
    AddSession string string string "nat option" nat
  | AppendOutput string string
  | MarkExited string "int js_opt" "string js_opt"
  | MarkBackgrounded string

fun apply_op :: "registry \<Rightarrow> registry_op \<Rightarrow> registry" where
  "apply_op reg (AddSession slug cmd dir p now) = snd (addSession reg slug cmd dir p now)"
| "apply_op reg (AppendOutput i chunk) = snd (appendOutput reg i chunk)"
| "apply_op reg (MarkExited i code sig) = snd (markExited reg i code sig)"
| "apply_op reg (MarkBackgrounded i) = snd (markBackgrounded reg i)"

definition run_ops :: "registry_op list \<Rightarrow> registry" where
  "run_ops ops = foldl apply_op Map.empty ops"




text \<open>
  The last \<open>n\<close> elements of a list (all of it when it is shorter): the reading of
  "the trailing \<open>n\<close> characters" used in the statements below.
\<close>

definition trailing :: "nat \<Rightarrow> 'a list \<Rightarrow> 'a list" where
  "trailing n s = drop (length s - n) s"

text \<open>The buffer that \<open>appendOutput\<close> stores for a concatenated output \<open>s\<close>.\<close>

definition window :: "nat \<Rightarrow> 'a list \<Rightarrow> 'a list" where
  "window m s = (if length s > m then slice_neg m s else s)"


text \<open>Every exited session of the registry has its input handle cleared.\<close>

definition handles_cleared :: "registry \<Rightarrow> bool" where
  "handles_cleared reg = (\<forall>i s. reg i = Some s \<longrightarrow> exited s \<longrightarrow> stdin s = None)"

definition tail_ok :: "ProcessSession \<Rightarrow> bool" where
  "tail_ok s = (tail s = trailing TAIL_CHARS (aggregated s))"


text \<open>
  \<open>killSession\<close> of the registry. \<open>process.kill\<close> either returns or throws; which of the
  two is the environment's choice, the parameter \<open>kill_ok\<close>. The signals sent and the
  timer set are returned as effects. A pid is truthy when it is defined and not 0.
\<close>

datatype effect = SendSignal nat string | ScheduleForceKill nat nat

definition truthy_pid :: "nat option \<Rightarrow> bool" where
  "truthy_pid p = (case p of Some n \<Rightarrow> n \<noteq> 0 | None \<Rightarrow> False)"

definition registry_killSession :: "(nat \<Rightarrow> bool) \<Rightarrow> registry \<Rightarrow> string \<Rightarrow> bool \<times> effect list" where
  "registry_killSession kill_ok reg i =
     (case reg i of
        Some session \<Rightarrow>
          (if truthy_pid (pid session)
           then (if kill_ok (the (pid session))
                 then (True, [SendSignal (the (pid session)) ''SIGTERM'',
                              ScheduleForceKill (the (pid session)) 5000])
                 else (False, []))
           else (False, []))
      | None \<Rightarrow> (False, []))"

record ProcessInfo =
  info_id :: string
  info_command :: string
  info_pid :: "nat option"
  info_startedAt :: nat
  info_cwd :: string
  info_exited :: bool
  info_exitCode :: "int js_opt"
  info_exitSignal :: "string js_opt"
  info_backgrounded :: bool

definition toProcessInfo :: "ProcessSession \<Rightarrow> ProcessInfo" where
  "toProcessInfo session =
     \<lparr> info_id = sid session, info_command = command session, info_pid = pid session,
       info_startedAt = startedAt session, info_cwd = cwd session,
       info_exited = exited session, info_exitCode = exitCode session,
       info_exitSignal = exitSignal session, info_backgrounded = backgrounded session \<rparr>"

section \<open>Process handler (executors/process-handler.js)\<close>

text \<open>
  A \<open>ProcessActionResult\<close> is either \<open>{ success: true, session }\<close> or
  \<open>{ success: false, error }\<close>. The handler's functions contain no \<open>throw\<close>, and every
  call that can throw stands in a \<open>try\<close>: they always return one of the two.
\<close>

datatype ProcessActionResult = ActionSuccess ProcessInfo | ActionFailure string

text \<open>\<open>!sessionId\<close> holds for \<open>undefined\<close> and for the empty string.\<close>

definition falsy_string :: "string option \<Rightarrow> bool" where
  "falsy_string x = (case x of None \<Rightarrow> True | Some s \<Rightarrow> s = [])"

definition handler_killSession ::
  "(nat \<Rightarrow> bool) \<Rightarrow> registry \<Rightarrow> string option \<Rightarrow> ProcessActionResult \<times> effect list" where
  "handler_killSession kill_ok reg sessionId =
     (if falsy_string sessionId then (ActionFailure ''Session ID required for kill action'', [])
      else (case getSession reg (the sessionId) of
              None \<Rightarrow> (ActionFailure (''Session not found: '' @ the sessionId), [])
            | Some session \<Rightarrow>
                if exited session then (ActionFailure ''Process already exited'', [])
                else (let (killed, effects) = registry_killSession kill_ok reg (the sessionId) in
                      if killed then (ActionSuccess (toProcessInfo session), effects)
                      else (ActionFailure ''Failed to kill process (may have already exited)'', effects))))"

subsection \<open>Key names\<close>

definition ESC :: nat where
  "ESC = 0x1B"

definition keyMap :: "(ustring \<times> ustring) list" where
  "keyMap =
     [(units ''Enter'', [0x0D]), (units ''Return'', [0x0D]), (units ''Tab'', [0x09]),
      (units ''Space'', units '' ''), (units ''Escape'', [ESC]),
      (units ''Backspace'', [0x08]), (units ''Delete'', [0x7F]),
      (units ''ArrowUp'', ESC # units ''[A''), (units ''ArrowDown'', ESC # units ''[B''),
      (units ''ArrowRight'', ESC # units ''[C''), (units ''ArrowLeft'', ESC # units ''[D''),
      (units ''Home'', ESC # units ''[H''), (units ''End'', ESC # units ''[F''),
      (units ''PageUp'', ESC # units ''[5~''), (units ''PageDown'', ESC # units ''[6~''),
      (units ''F1'', ESC # units ''OP''), (units ''F2'', ESC # units ''OQ''),
      (units ''F3'', ESC # units ''OR''), (units ''F4'', ESC # units ''OS''),
      (units ''F5'', ESC # units ''[15~''), (units ''F6'', ESC # units ''[17~''),
      (units ''F7'', ESC # units ''[18~''), (units ''F8'', ESC # units ''[19~''),
      (units ''F9'', ESC # units ''[20~''), (units ''F10'', ESC # units ''[21~''),
      (units ''F11'', ESC # units ''[23~''), (units ''F12'', ESC # units ''[24~'')]"

text \<open>
  \<open>keyMap\<close> is an object literal, so \<open>keyMap[key]\<close> also finds the properties it inherits
  from \<open>Object.prototype\<close>; their values are functions or objects, not strings.
\<close>

definition objectPrototypeKeys :: "ustring list" where
  "objectPrototypeKeys =
     map units
       [''constructor'', ''__defineGetter__'', ''__defineSetter__'', ''hasOwnProperty'',
        ''__lookupGetter__'', ''__lookupSetter__'', ''isPrototypeOf'',
        ''propertyIsEnumerable'', ''toString'', ''valueOf'', ''__proto__'',
        ''toLocaleString'']"

datatype js_value = JsString ustring | JsInherited ustring

definition keyMap_get :: "ustring \<Rightarrow> js_value option" where
  "keyMap_get key =
     (case map_of keyMap key of
        Some v \<Rightarrow> Some (JsString v)
      | None \<Rightarrow> if key \<in> set objectPrototypeKeys then Some (JsInherited key) else None)"

text \<open>
  \<open>charCodeAt(0)\<close>, where \<open>NaN\<close> is \<open>None\<close>. \<open>String.prototype.toLowerCase\<close> belongs to the
  runtime and is the parameter \<open>lc\<close> of the conversion; \<open>String.fromCharCode(code)\<close> is the
  string of the one code unit \<open>code\<close>.
\<close>

definition charCodeAt0 :: "ustring \<Rightarrow> nat option" where
  "charCodeAt0 s = (case s of [] \<Rightarrow> None | c # _ \<Rightarrow> Some c)"

definition convertKeySequence :: "(ustring \<Rightarrow> ustring) \<Rightarrow> ustring \<Rightarrow> js_value" where
  "convertKeySequence lc key =
     (let fallback = (case keyMap_get key of Some v \<Rightarrow> v | None \<Rightarrow> JsString key) in
      if prefix (units ''Ctrl+'') key
      then (case charCodeAt0 (lc (drop 5 key)) of
              None \<Rightarrow> fallback
            | Some n \<Rightarrow>
                (let code = int n - 96 in
                 if code \<ge> 1 \<and> code \<le> 26 then JsString [nat code] else fallback))
      else fallback)"

text \<open>
  \<open>#sendKeysToSession\<close>. \<open>stdin.write\<close> of a value that is not a string throws; the loop
  stops there, and the chunks written before stay written. The message of the error
  thrown for the inherited value of a key is the runtime's, the parameter \<open>write_error\<close>.
  \<open>write_keys\<close> returns the key at which the write threw, if any.
\<close>

fun write_keys ::
  "(ustring \<Rightarrow> ustring) \<Rightarrow> writable \<Rightarrow> ustring list \<Rightarrow> ustring option \<times> writable" where
  "write_keys lc w [] = (None, w)"
| "write_keys lc w (key # keys) =
     (case convertKeySequence lc key of
        JsString keySequence \<Rightarrow> write_keys lc (w @ [keySequence]) keys
      | JsInherited name \<Rightarrow> (Some name, w))"

definition sendKeysToSession ::
  "(ustring \<Rightarrow> ustring) \<Rightarrow> (ustring \<Rightarrow> string) \<Rightarrow> registry \<Rightarrow> string option \<Rightarrow>
     ustring list option \<Rightarrow> ProcessActionResult \<times> registry" where
  "sendKeysToSession lc write_error reg sessionId keys =
     (if falsy_string sessionId
      then (ActionFailure ''Session ID required for send-keys action'', reg)
      else if keys = None \<or> keys = Some []
      then (ActionFailure ''Keys required for send-keys action'', reg)
      else (case getSession reg (the sessionId) of
              None \<Rightarrow> (ActionFailure (''Session not found: '' @ the sessionId), reg)
            | Some session \<Rightarrow>
                if exited session then (ActionFailure ''Cannot send keys to exited process'', reg)
                else (case stdin session of
                        None \<Rightarrow> (ActionFailure ''Session stdin not available'', reg)
                      | Some w \<Rightarrow>
                          (let (thrown, w') = write_keys lc w (the keys);
                               reg' = reg(the sessionId \<mapsto> session\<lparr>stdin := Some w'\<rparr>) in
                           case thrown of
                             None \<Rightarrow> (ActionSuccess (toProcessInfo session), reg')
                           | Some name \<Rightarrow>
                               (ActionFailure
                                  (''Failed to send keys to session: '' @ write_error name),
                                reg')))))"

text \<open>
  Letters by their codes: \<open>a\<close> to \<open>z\<close> are 97 to 122, \<open>A\<close> to \<open>Z\<close> are 65 to 90. The two
  forms of a \<open>Ctrl+\<close> key name: \<open>Ctrl+\<close> and one letter \<open>a\<close> to \<open>z\<close>, as the claim words it;
  and \<open>Ctrl+\<close> followed by text whose lower-case form begins with a letter \<open>a\<close> to \<open>z\<close>, as
  the code tests it.
\<close>

definition lower_letter :: "nat \<Rightarrow> bool" where
  "lower_letter c = (97 \<le> c \<and> c \<le> 122)"

definition upper_letter :: "nat \<Rightarrow> bool" where
  "upper_letter c = (65 \<le> c \<and> c \<le> 90)"

definition ctrl_lower_letter :: "ustring \<Rightarrow> bool" where
  "ctrl_lower_letter key =
     (take 5 key = units ''Ctrl+'' \<and>
      (case drop 5 key of [c] \<Rightarrow> lower_letter c | _ \<Rightarrow> False))"

definition ctrl_letter_prefix :: "(ustring \<Rightarrow> ustring) \<Rightarrow> ustring \<Rightarrow> bool" where
  "ctrl_letter_prefix lc key =
     (take 5 key = units ''Ctrl+'' \<and>
      (case lc (drop 5 key) of c # _ \<Rightarrow> lower_letter c | [] \<Rightarrow> False))"

text \<open>
  A key name the conversion leaves alone: not a named key, not a \<open>Ctrl+\<close> letter, and not
  the name of an inherited property.
\<close>

definition unrecognised :: "(ustring \<Rightarrow> ustring) \<Rightarrow> ustring \<Rightarrow> bool" where
  "unrecognised lc key =
     (map_of keyMap key = None \<and> \<not> ctrl_letter_prefix lc key \<and>
      key \<notin> set objectPrototypeKeys)"

text \<open>
  A lower-casing for the examples and for the keys made of a letter: it maps the capitals
  \<open>A\<close> to \<open>Z\<close> to their small letters, the Kelvin sign \<open>U+212A\<close> to \<open>k\<close> and the dotted
  capital I \<open>U+0130\<close> to \<open>i\<close> followed by \<open>U+0307\<close>, as \<open>toLowerCase\<close> does, and keeps every
  other code unit.
\<close>

definition lower_unit :: "nat \<Rightarrow> ustring" where
  "lower_unit c =
     (if upper_letter c then [c + 32]
      else if c = 0x212A then [107]
      else if c = 0x130 then [105, 0x307]
      else [c])"

definition letters_toLowerCase :: "ustring \<Rightarrow> ustring" where
  "letters_toLowerCase s = concat (map lower_unit s)"

section \<open>File executor (executors/files.js)\<close>

text \<open>
  The file system is a map from resolved paths to nodes. \<open>existsSync\<close> holds for files and
  directories; \<open>readFileSync\<close> of a directory throws (\<open>EISDIR\<close>). The functions
  \<open>resolve\<close> and \<open>relative\<close> of \<open>node:path\<close> are parameters.
\<close>

datatype fs_node = RegularFile string | Directory

type_synonym filesystem = "string \<rightharpoonup> fs_node"

record path_lib =
  resolve :: "string \<Rightarrow> string \<Rightarrow> string"
  relative :: "string \<Rightarrow> string \<Rightarrow> string"

record EditPayload =
  path :: string
  oldText :: string
  newText :: string

datatype FileOperationResult = FileSuccess | FileFailure string

definition validatePath :: "path_lib \<Rightarrow> string \<Rightarrow> string \<Rightarrow> string option" where
  "validatePath lib rootPath inputPath =
     (let resolvedPath = resolve lib rootPath inputPath;
          relativePath = relative lib rootPath resolvedPath in
      if prefix ''..'' relativePath \<or> relativePath = ''..'' then None
      else Some resolvedPath)"

text \<open>\<open>s.indexOf(pat)\<close>: the least index where \<open>pat\<close> starts in \<open>s\<close>, or \<open>-1\<close>.\<close>

fun indexOf_from :: "nat \<Rightarrow> 'a list \<Rightarrow> 'a list \<Rightarrow> int" where
  "indexOf_from k [] pat = (if pat = [] then int k else - 1)"
| "indexOf_from k (c # cs) pat =
     (if prefix pat (c # cs) then int k else indexOf_from (Suc k) cs pat)"

definition indexOf :: "'a list \<Rightarrow> 'a list \<Rightarrow> int" where
  "indexOf s pat = indexOf_from 0 s pat"

text \<open>\<open>s.substring(a, b)\<close> and \<open>s.substring(a)\<close> for \<open>0 \<le> a \<le> b\<close>.\<close>

definition substring :: "'a list \<Rightarrow> nat \<Rightarrow> nat \<Rightarrow> 'a list" where
  "substring s a b = take (b - a) (drop a s)"

definition substring_from :: "'a list \<Rightarrow> nat \<Rightarrow> 'a list" where
  "substring_from s a = drop a s"

definition invalid_path_message :: string where
  "invalid_path_message = ''Invalid path: cannot access outside root directory''"

definition edit :: "path_lib \<Rightarrow> string \<Rightarrow> filesystem \<Rightarrow> EditPayload \<Rightarrow> FileOperationResult \<times> filesystem" where
  "edit lib rootPath fs payload =
     (case validatePath lib rootPath (path payload) of
        None \<Rightarrow> (FileFailure invalid_path_message, fs)
      | Some validPath \<Rightarrow>
          if validPath = [] then (FileFailure invalid_path_message, fs)
          else (case fs validPath of
                  None \<Rightarrow> (FileFailure ''File not found'', fs)
                | Some Directory \<Rightarrow>
                    (FileFailure ''Failed to edit file: EISDIR: illegal operation on a directory, read'', fs)
                | Some (RegularFile content) \<Rightarrow>
                    (let oldTextIndex = indexOf content (oldText payload) in
                     if oldTextIndex = - 1 then (FileFailure ''Old text not found in file'', fs)
                     else (let newContent =
                                 substring content 0 (nat oldTextIndex) @ newText payload @
                                 substring_from content (nat oldTextIndex + length (oldText payload))
                           in (FileSuccess, fs(validPath \<mapsto> RegularFile newContent))))))"

text \<open>The content of the file a payload names, after validation of its path.\<close>

definition content_at :: "path_lib \<Rightarrow> string \<Rightarrow> filesystem \<Rightarrow> string \<Rightarrow> string option" where
  "content_at lib rootPath fs p =
     (case validatePath lib rootPath p of
        None \<Rightarrow> None
      | Some validPath \<Rightarrow>
          (case fs validPath of Some (RegularFile content) \<Rightarrow>
             if validPath = [] then None else Some content | _ \<Rightarrow> None))"

text \<open>
  The start indices of the occurrences of \<open>pat\<close> in \<open>s\<close>, in increasing order: the reading
  of "occurs", "occurs exactly once" and "the first occurrence" used in the statements.
\<close>

definition occurs_at :: "'a list \<Rightarrow> 'a list \<Rightarrow> nat \<Rightarrow> bool" where
  "occurs_at pat s i = (take (length pat) (drop i s) = pat)"

definition occurrences :: "'a list \<Rightarrow> 'a list \<Rightarrow> nat list" where
  "occurrences pat s = filter (occurs_at pat s) [0..<Suc (length s)]"

text \<open>A path library for examples: paths below the root \<open>/w\<close> are given relative to it.\<close>

definition flat_paths :: path_lib where
  "flat_paths = \<lparr> resolve = (\<lambda>root p. root @ ''/'' @ p),
                   relative = (\<lambda>root p. drop (Suc (length root)) p) \<rparr>"

section \<open>Reconnection (reconnect.js)\<close>

text \<open>
  Numbers are modelled as exact reals, the counter as a natural number and the ceiling
  \<open>maxAttempts\<close> (default \<open>Infinity\<close>) as an extended natural number. The value of
  \<open>Math.random()\<close> is the parameter \<open>rnd\<close>, with \<open>0 \<le> rnd < 1\<close>. The timer holds the delay
  it was set with.
\<close>

record ReconnectOptions =
  opt_baseMs :: "real option"
  opt_maxMs :: "real option"
  opt_maxAttempts :: "enat option"

record ReconnectManager =
  attempt :: nat
  baseMs :: real
  maxMs :: real
  maxAttempts :: enat
  reconnect_timer :: "real option"

definition default_options :: ReconnectOptions where
  "default_options = \<lparr> opt_baseMs = None, opt_maxMs = None, opt_maxAttempts = None \<rparr>"

definition new_ReconnectManager :: "ReconnectOptions \<Rightarrow> ReconnectManager" where
  "new_ReconnectManager opts =
     \<lparr> attempt = 0,
       baseMs = (case opt_baseMs opts of Some b \<Rightarrow> b | None \<Rightarrow> 1000),
       maxMs = (case opt_maxMs opts of Some m \<Rightarrow> m | None \<Rightarrow> 30000),
       maxAttempts = (case opt_maxAttempts opts of Some a \<Rightarrow> a | None \<Rightarrow> \<infinity>),
       reconnect_timer = None \<rparr>"

definition delay_of :: "ReconnectManager \<Rightarrow> real \<Rightarrow> real" where
  "delay_of m rnd = min (baseMs m * 2 ^ attempt m + rnd * 1000) (maxMs m)"

definition schedule :: "ReconnectManager \<Rightarrow> real \<Rightarrow> bool \<times> ReconnectManager" where
  "schedule m rnd =
     (if enat (attempt m) \<ge> maxAttempts m then (False, m)
      else (let delay = delay_of m rnd in
            (True, m\<lparr>attempt := attempt m + 1, reconnect_timer := Some delay\<rparr>)))"

definition reset :: "ReconnectManager \<Rightarrow> ReconnectManager" where
  "reset m = m\<lparr>attempt := 0, reconnect_timer := None\<rparr>"

definition destroy :: "ReconnectManager \<Rightarrow> ReconnectManager" where
  "destroy m = reset m"

text \<open>
  The delays of successive \<open>schedule\<close> calls, one per random number, up to the first
  refusal.
\<close>

fun delays :: "ReconnectManager \<Rightarrow> real list \<Rightarrow> real list" where
  "delays m [] = []"
| "delays m (rnd # rnds) =
     (if fst (schedule m rnd)
      then (case reconnect_timer (snd (schedule m rnd)) of
              Some d \<Rightarrow> d # delays (snd (schedule m rnd)) rnds
            | None \<Rightarrow> [])
      else [])"

definition unit_interval :: "real \<Rightarrow> bool" where
  "unit_interval rnd = (0 \<le> rnd \<and> rnd < 1)"

section \<open>Actuator: outbound messages (actuator.js)\<close>

text \<open>
  The socket is modelled by its \<open>readyState\<close> and the frames handed to \<open>ws.send\<close>, oldest
  first; a frame is the message that \<open>JSON.stringify\<close> serialises. Besides the socket the
  actuator keeps the ids of the commands in flight and the \<open>destroyed\<close> flag; it has no
  field that holds outbound messages.
\<close>

datatype ready_state = CONNECTING | OPEN | CLOSING | CLOSED

datatype result_status = Completed | Failed | Running

datatype 'r outbound = CommandResult string result_status 'r | Pong nat

record 'r websocket =
  readyState :: ready_state
  frames :: "'r outbound list"

record 'r actuator =
  ws :: "'r websocket option"
  activeCommands :: "string set"
  destroyed :: bool

definition ws_open :: "'r actuator \<Rightarrow> bool" where
  "ws_open a = (case ws a of Some sock \<Rightarrow> readyState sock = OPEN | None \<Rightarrow> False)"

definition send :: "'r actuator \<Rightarrow> 'r outbound \<Rightarrow> 'r actuator" where
  "send a msg =
     (case ws a of
        Some sock \<Rightarrow>
          if readyState sock = OPEN
          then a\<lparr>ws := Some (sock\<lparr>frames := frames sock @ [msg]\<rparr>)\<rparr>
          else a
      | None \<Rightarrow> a)"

definition sendResult :: "'r actuator \<Rightarrow> string \<Rightarrow> result_status \<Rightarrow> 'r \<Rightarrow> 'r actuator" where
  "sendResult a i status result = send a (CommandResult i status result)"

text \<open>
  The socket events: \<open>close\<close> drops the socket, \<open>#connect\<close> creates one unless the
  constructor throws (the flag \<open>constructed\<close>), \<open>open\<close> opens it.
\<close>

definition on_close :: "'r actuator \<Rightarrow> 'r actuator" where
  "on_close a = a\<lparr>ws := None\<rparr>"

definition connect :: "'r actuator \<Rightarrow> bool \<Rightarrow> 'r actuator" where
  "connect a constructed =
     (if destroyed a then a
      else if constructed then a\<lparr>ws := Some \<lparr> readyState = CONNECTING, frames = [] \<rparr>\<rparr>
      else a)"

definition on_open :: "'r actuator \<Rightarrow> 'r actuator" where
  "on_open a =
     (case ws a of Some sock \<Rightarrow> a\<lparr>ws := Some (sock\<lparr>readyState := OPEN\<rparr>)\<rparr> | None \<Rightarrow> a)"

definition frames_of :: "'r actuator \<Rightarrow> 'r outbound list" where
  "frames_of a = (case ws a of Some sock \<Rightarrow> frames sock | None \<Rightarrow> [])"

section \<open>Shell executor (executors/shell.js)\<close>

text \<open>
  One invocation of \<open>executeShell\<close> is modelled as a start step followed by the events of
  the single-threaded event loop: the two timers, the data events, and the exit, close
  and error events of the child. The callbacks invoked are recorded in order. An error
  message is kept as the value that determines it.
\<close>

datatype exec_error = FailedToSpawn string | TimedOut nat | ProcessError string

datatype callback =
    OnStdout string
  | OnStderr string
  | OnDone int nat
  | OnError exec_error
  | OnYield

datatype listeners = NoListeners | PtyListeners | ProcListeners

record ShellExecOptions =
  opt_command :: string
  opt_cwd :: "string option"
  opt_timeout :: "nat option"
  opt_pty :: "bool option"
  opt_yieldMs :: "nat option"

text \<open>
  The environment of the start step: the working directory of the agent, whether the
  import of the pty module gave a module, and what the spawn call did: throw, or return a
  child whose pid is undefined when the spawn failed asynchronously.
\<close>

datatype spawn_result = SpawnThrows string | SpawnReturns "nat option"

record spawn_env =
  processCwd :: string
  ptyModule :: bool
  spawnResult :: spawn_result

record exec_state =
  session_registry :: registry
  session_id :: string
  startTime :: nat
  timeoutSeconds :: nat
  killed :: bool
  timer :: bool
  yieldTimer :: bool
  graceTimer :: bool
  handlers :: listeners
  calls :: "callback list"
  signals :: "(nat \<times> string) list"

definition DEFAULT_TIMEOUT :: nat where
  "DEFAULT_TIMEOUT = 1800"

definition MAX_TIMEOUT :: nat where
  "MAX_TIMEOUT = 3600"

definition session_pid :: "exec_state \<Rightarrow> nat option" where
  "session_pid st =
     (case session_registry st (session_id st) of Some session \<Rightarrow> pid session | None \<Rightarrow> None)"

definition session_exited :: "exec_state \<Rightarrow> bool" where
  "session_exited st =
     (case session_registry st (session_id st) of Some session \<Rightarrow> exited session | None \<Rightarrow> False)"

definition executeShell ::
  "spawn_env \<Rightarrow> ShellExecOptions \<Rightarrow> bool \<Rightarrow> string \<Rightarrow> nat \<Rightarrow> registry \<Rightarrow> exec_state" where
  "executeShell env opts hasOnYield slug now reg =
     (let seconds = min (case opt_timeout opts of Some t \<Rightarrow> t | None \<Rightarrow> DEFAULT_TIMEOUT) MAX_TIMEOUT;
          usePty = (case opt_pty opts of Some b \<Rightarrow> b | None \<Rightarrow> False);
          dir = (case opt_cwd opts of Some d \<Rightarrow> d | None \<Rightarrow> processCwd env);
          (session, reg1) = addSession reg slug (opt_command opts) dir None now;
          st = \<lparr> session_registry = reg1, session_id = slug, startTime = now,
                 timeoutSeconds = seconds, killed = False, timer = False,
                 yieldTimer = False, graceTimer = False, handlers = NoListeners,
                 calls = [], signals = [] \<rparr>
      in case spawnResult env of
           SpawnThrows err \<Rightarrow>
             st\<lparr>session_registry := snd (markExited reg1 slug (Val 1) Undefined),
                calls := [OnError (FailedToSpawn err)]\<rparr>
         | SpawnReturns p \<Rightarrow>
             st\<lparr>session_registry := reg1(slug \<mapsto> session\<lparr>pid := p, stdin := Some []\<rparr>),
                timer := True,
                yieldTimer := ((case opt_yieldMs opts of Some y \<Rightarrow> y \<noteq> 0 | None \<Rightarrow> False)
                               \<and> hasOnYield),
                handlers := (if usePty \<and> ptyModule env then PtyListeners else ProcListeners)\<rparr>)"

text \<open>Decimal digits of a number, for the signal name \<open>SIG<n>\<close> of a pty exit.\<close>

fun show_nat :: "nat \<Rightarrow> string" where
  "show_nat n =
     (if n < 10 then [char_of (48 + n)] else show_nat (n div 10) @ [char_of (48 + n mod 10)])"

declare show_nat.simps [simp del]

text \<open>
  The events. A timer event stands for the run of the timer's callback; it has an effect
  only while the timer is pending. The flag of \<open>TimeoutFires\<close> says whether
  \<open>process.kill\<close> returned (or threw). Exit and close events carry the clock reading.
\<close>

datatype event =
    TimeoutFires bool
  | YieldFires
  | GraceFires
  | PtyData string
  | PtyExit "int option" "nat option" nat
  | StdoutData string
  | StderrData string
  | ProcClose "int option" "string option" nat
  | ProcError string

definition on_timeout :: "exec_state \<Rightarrow> bool \<Rightarrow> exec_state" where
  "on_timeout st kill_ok =
     (if killed st then st
      else (let st1 = st\<lparr>killed := True\<rparr>;
                st2 = (if truthy_pid (session_pid st1) \<and> kill_ok
                       then st1\<lparr>signals := signals st1 @ [(the (session_pid st1), ''SIGTERM'')],
                               graceTimer := True\<rparr>
                       else st1)
            in st2\<lparr>session_registry :=
                      snd (markExited (session_registry st2) (session_id st2) (Val 1) (Val ''SIGTERM'')),
                   calls := calls st2 @ [OnError (TimedOut (timeoutSeconds st2))]\<rparr>))"

definition on_grace :: "exec_state \<Rightarrow> exec_state" where
  "on_grace st =
     (if truthy_pid (session_pid st) \<and> \<not> session_exited st
      then st\<lparr>signals := signals st @ [(the (session_pid st), ''SIGKILL'')]\<rparr>
      else st)"

definition on_yield :: "exec_state \<Rightarrow> exec_state" where
  "on_yield st =
     (if \<not> killed st \<and> \<not> session_exited st
      then st\<lparr>session_registry := snd (markBackgrounded (session_registry st) (session_id st)),
              calls := calls st @ [OnYield]\<rparr>
      else st)"

definition on_data :: "exec_state \<Rightarrow> string \<Rightarrow> callback \<Rightarrow> exec_state" where
  "on_data st chunk cb =
     st\<lparr>session_registry := snd (appendOutput (session_registry st) (session_id st) chunk),
        calls := calls st @ [cb]\<rparr>"

definition clear_timers :: "exec_state \<Rightarrow> exec_state" where
  "clear_timers st = st\<lparr>timer := False, yieldTimer := False\<rparr>"

definition on_exit :: "exec_state \<Rightarrow> int js_opt \<Rightarrow> string js_opt \<Rightarrow> int \<Rightarrow> nat \<Rightarrow> exec_state" where
  "on_exit st code sig reported now =
     (let st1 = clear_timers st in
      if killed st1 then st1
      else st1\<lparr>session_registry := snd (markExited (session_registry st1) (session_id st1) code sig),
               calls := calls st1 @ [OnDone reported (now - startTime st1)]\<rparr>)"

definition on_error :: "exec_state \<Rightarrow> string \<Rightarrow> exec_state" where
  "on_error st msg =
     (let st1 = clear_timers st in
      if killed st1 then st1
      else st1\<lparr>session_registry :=
                 snd (markExited (session_registry st1) (session_id st1) (Val 1) Undefined),
               calls := calls st1 @ [OnError (ProcessError msg)]\<rparr>)"

fun handle_event :: "exec_state \<Rightarrow> event \<Rightarrow> exec_state" where
  "handle_event st (TimeoutFires kill_ok) =
     (if timer st then on_timeout (st\<lparr>timer := False\<rparr>) kill_ok else st)"
| "handle_event st YieldFires =
     (if yieldTimer st then on_yield (st\<lparr>yieldTimer := False\<rparr>) else st)"
| "handle_event st GraceFires =
     (if graceTimer st then on_grace (st\<lparr>graceTimer := False\<rparr>) else st)"
| "handle_event st (PtyData chunk) =
     (if handlers st = PtyListeners then on_data st chunk (OnStdout chunk) else st)"
| "handle_event st (PtyExit code sig now) =
     (if handlers st = PtyListeners
      then on_exit st (case code of Some c \<Rightarrow> Val c | None \<Rightarrow> Undefined)
             (case sig of Some n \<Rightarrow> if n \<noteq> 0 then Val (''SIG'' @ show_nat n) else Undefined
                        | None \<Rightarrow> Undefined)
             (case code of Some c \<Rightarrow> c | None \<Rightarrow> 1) now
      else st)"
| "handle_event st (StdoutData chunk) =
     (if handlers st = ProcListeners then on_data st chunk (OnStdout chunk) else st)"
| "handle_event st (StderrData chunk) =
     (if handlers st = ProcListeners then on_data st chunk (OnStderr chunk) else st)"
| "handle_event st (ProcClose code sig now) =
     (if handlers st = ProcListeners
      then on_exit st (case code of Some c \<Rightarrow> Val c | None \<Rightarrow> Null)
             (case sig of Some s \<Rightarrow> if s \<noteq> [] then Val s else Undefined | None \<Rightarrow> Undefined)
             (case code of Some c \<Rightarrow> c | None \<Rightarrow> 1) now
      else st)"
| "handle_event st (ProcError msg) =
     (if handlers st = ProcListeners then on_error st msg else st)"

definition run_events :: "exec_state \<Rightarrow> event list \<Rightarrow> exec_state" where
  "run_events st evs = foldl handle_event st evs"

text \<open>
  The terminal outcomes are \<open>onDone\<close> and \<open>onError\<close>; the actuator answers each callback
  but the data ones with a \<open>command_result\<close> of the status below.
\<close>

fun is_terminal :: "callback \<Rightarrow> bool" where
  "is_terminal (OnDone _ _) = True"
| "is_terminal (OnError _) = True"
| "is_terminal _ = False"

definition terminal_calls :: "exec_state \<Rightarrow> callback list" where
  "terminal_calls st = filter is_terminal (calls st)"

fun status_of :: "callback \<Rightarrow> result_status option" where
  "status_of (OnDone code _) = Some (if code = 0 then Completed else Failed)"
| "status_of (OnError _) = Some Failed"
| "status_of OnYield = Some Running"
| "status_of _ = None"

definition statuses :: "exec_state \<Rightarrow> result_status list" where
  "statuses st = List.map_filter status_of (calls st)"

text \<open>
  The events by which the child ends: exit of a pty, close and error of a process. A
  state is settled for the events still to come when it has reported no terminal outcome
  yet, or one, with the timeout timer cleared and nothing left that could report another:
  the invocation was killed by the timeout, or no listener is registered, or no end event
  is to come.
\<close>

fun proc_end :: "event \<Rightarrow> bool" where
  "proc_end (PtyExit _ _ _) = True"
| "proc_end (ProcClose _ _ _) = True"
| "proc_end (ProcError _) = True"
| "proc_end _ = False"

definition settled :: "exec_state \<Rightarrow> event list \<Rightarrow> bool" where
  "settled st evs =
     (terminal_calls st = [] \<or>
      (length (terminal_calls st) = 1 \<and> \<not> timer st \<and>
       (killed st \<or> handlers st = NoListeners \<or> filter proc_end evs = [])))"

section \<open>Example states\<close>

text \<open>
  A command whose working directory does not exist: \<open>spawn\<close> returns a child without a
  pid, and the child emits \<open>error\<close> and then \<open>close\<close> with the code \<open>-2\<close>.
\<close>

definition missing_cwd_env :: spawn_env where
  "missing_cwd_env =
     \<lparr> processCwd = ''/home/agent'', ptyModule = False, spawnResult = SpawnReturns None \<rparr>"

definition missing_cwd_opts :: ShellExecOptions where
  "missing_cwd_opts =
     \<lparr> opt_command = ''ls'', opt_cwd = Some ''/nonexistent'', opt_timeout = None,
       opt_pty = None, opt_yieldMs = None \<rparr>"

definition error_then_close :: "event list" where
  "error_then_close = [ProcError ''spawn sh ENOENT'', ProcClose (Some (- 2)) None 7]"

definition example_registry :: registry where
  "example_registry = snd (addSession Map.empty ''s1'' ''ls'' ''/tmp'' None 0)"

definition exited_registry :: registry where
  "exited_registry = snd (markExited example_registry ''s1'' (Val 0) Undefined)"

definition exited_session :: ProcessSession where
  "exited_session =
     \<lparr> sid = ''s1'', command = ''ls'', pid = None, startedAt = 0, cwd = ''/tmp'',
       exited = True, exitCode = Val 0, exitSignal = Undefined,
       backgrounded = False, aggregated = [], tail = [],
       maxOutputChars = 200000, stdin = None \<rparr>"


definition live_session :: ProcessSession where
  "live_session =
     \<lparr> sid = ''s2'', command = ''cat'', pid = None, startedAt = 0, cwd = ''/tmp'',
       exited = False, exitCode = Undefined, exitSignal = Undefined,
       backgrounded = False, aggregated = [], tail = [],
       maxOutputChars = 200000, stdin = Some [] \<rparr>"

definition live_registry :: registry where
  "live_registry = [''s2'' \<mapsto> live_session]"

definition exited_live_registry :: registry where
  "exited_live_registry = snd (markExited live_registry ''s2'' (Val 0) Undefined)"

text \<open>A command that is spawned with the pid 42 and then closes with the exit code 0.\<close>

definition spawned_env :: spawn_env where
  "spawned_env =
     \<lparr> processCwd = ''/home/agent'', ptyModule = False, spawnResult = SpawnReturns (Some 42) \<rparr>"

definition plain_opts :: ShellExecOptions where
  "plain_opts =
     \<lparr> opt_command = ''ls'', opt_cwd = None, opt_timeout = None, opt_pty = None,
       opt_yieldMs = None \<rparr>"

definition spawned_state :: exec_state where
  "spawned_state = executeShell spawned_env plain_opts False ''s1'' 0 (run_ops [])"

text \<open>The key \<open>Ctrl+\<close> followed by the Kelvin sign.\<close>

definition kelvin_key :: ustring where
  "kelvin_key = units ''Ctrl+'' @ [0x212A]"

definition abc_fs :: filesystem where
  "abc_fs = [''/w/f'' \<mapsto> RegularFile ''abc'']"

definition bb_fs :: filesystem where
  "bb_fs = [''/w/f'' \<mapsto> RegularFile ''bb'']"

definition b_to_XY :: EditPayload where
  "b_to_XY = \<lparr> path = ''f'', oldText = ''b'', newText = ''XY'' \<rparr>"

definition b_to_X :: EditPayload where
  "b_to_X = \<lparr> path = ''f'', oldText = ''b'', newText = ''X'' \<rparr>"

definition b_to_bb :: EditPayload where
  "b_to_bb = \<lparr> path = ''f'', oldText = ''b'', newText = ''bb'' \<rparr>"

definition closing_actuator :: "string actuator" where
  "closing_actuator =
     \<lparr> ws = Some \<lparr> readyState = CLOSING, frames = [] \<rparr>,
       activeCommands = {''c1''}, destroyed = False \<rparr>"

definition default_manager :: ReconnectManager where
  "default_manager = new_ReconnectManager default_options"

definition exhausted_manager :: ReconnectManager where
  "exhausted_manager =
     (new_ReconnectManager
        \<lparr> opt_baseMs = None, opt_maxMs = None, opt_maxAttempts = Some 3 \<rparr>)\<lparr>attempt := 3\<rparr>"

definition example_rnds :: "real list" where
  "example_rnds = [0, 1 / 2, 1 / 4, 0, 9 / 10, 1 / 10, 7 / 10]"

section \<open>Properties of the process registry\<close>

lemma window_trailing: "window m s = (if m = 0 then s else trailing m s)"
  by (simp add: window_def slice_neg_def trailing_def)



lemma updateTail_fields [simp]:
  "aggregated (updateTail s) = aggregated s"
  "maxOutputChars (updateTail s) = maxOutputChars s"
  "exited (updateTail s) = exited s"
  "stdin (updateTail s) = stdin s"
  by (simp_all add: updateTail_def)

lemma updateTail_ok: "tail_ok (updateTail s)"
  by (simp add: tail_ok_def updateTail_def slice_neg_def trailing_def TAIL_CHARS_def)

lemma appendOutput_some:
  "reg i = Some s \<Longrightarrow>
   snd (appendOutput reg i c) =
     reg(i \<mapsto> updateTail (s\<lparr>aggregated := window (maxOutputChars s) (aggregated s @ c)\<rparr>))"
  by (simp add: appendOutput_def window_def Let_def)

lemma exited_registry_s1: "exited_registry ''s1'' = Some exited_session"
  by (simp add: exited_registry_def example_registry_def exited_session_def addSession_def
      markExited_def newSession_def Let_def MAX_OUTPUT_CHARS_def)


subsection \<open>The sliding window\<close>













subsection \<open>The tail\<close>






subsection \<open>Idempotent transitions\<close>

text \<open>
  C6: \<open>markBackgrounded\<close> and \<open>markExited\<close> are idempotent: applied twice with the same
  arguments they give the result, and the registry, of one application. Two calls of
  \<open>markExited\<close> with different codes leave what the second call alone leaves: the last
  write wins, for every registry, id, code and signal.
\<close>

theorem mark_transitions_idempotent:
  "markBackgrounded (snd (markBackgrounded reg i)) i = markBackgrounded reg i \<and>
   markExited (snd (markExited reg i code sig)) i code sig = markExited reg i code sig \<and>
   markExited (snd (markExited reg i code1 sig1)) i code2 sig2 = markExited reg i code2 sig2"
  by (cases "reg i") (simp_all add: markBackgrounded_def markExited_def)

theorem mark_transitions_idempotent_witness:
  "map_option exitCode
     (snd (markExited (snd (markExited example_registry ''s1'' (Val 0) Undefined)) ''s1''
             (Val 7) (Val ''SIGTERM'')) ''s1'') = Some (Val 7) \<and>
   map_option exitSignal
     (snd (markExited (snd (markExited example_registry ''s1'' (Val 0) Undefined)) ''s1''
             (Val 7) (Val ''SIGTERM'')) ''s1'') = Some (Val ''SIGTERM'')"
  using mark_transitions_idempotent
          [where reg = example_registry and i = "''s1''" and ?code1.0 = "Val 0"
             and ?sig1.0 = Undefined and ?code2.0 = "Val 7" and ?sig2.0 = "Val ''SIGTERM''"]
  by (simp add: example_registry_def addSession_def markExited_def newSession_def Let_def)

section \<open>Properties of the process handler\<close>

text \<open>
  C8: for every session that exists, has not exited and has no pid, the kill action
  returns a failure result that carries a descriptive message, and sends no signal. (The
  result is a returned value: the handler has no throwing path.)
\<close>

theorem kill_without_pid_fails:
  assumes "reg i = Some s" and "\<not> exited s" and "pid s = None"
  shows "handler_killSession kill_ok reg (Some i) =
           (ActionFailure (if i = [] then ''Session ID required for kill action''
                           else ''Failed to kill process (may have already exited)''), [])"
  using assms
  by (simp add: handler_killSession_def falsy_string_def getSession_def
      registry_killSession_def truthy_pid_def)

theorem kill_without_pid_fails_witness:
  "handler_killSession (\<lambda>p. True) live_registry (Some ''s2'') =
     (ActionFailure ''Failed to kill process (may have already exited)'', [])"
  using kill_without_pid_fails
          [where reg = live_registry and i = "''s2''" and s = live_session
             and kill_ok = "\<lambda>p. True"]
  by (simp add: live_registry_def live_session_def)

subsection \<open>Key names\<close>

lemma length_ctrl: "length (units ''Ctrl+'') = 5" by (simp add: units_def)

lemma convert_unrecognised:
  assumes "unrecognised lc key"
  shows "convertKeySequence lc key = JsString key"
proof -
  have fallback: "(case keyMap_get key of Some v \<Rightarrow> v | None \<Rightarrow> JsString key) = JsString key"
    using assms by (simp add: unrecognised_def keyMap_get_def)
  show ?thesis
  proof (cases "prefix (units ''Ctrl+'') key")
    case False
    then show ?thesis using fallback by (simp add: convertKeySequence_def Let_def)
  next
    case True
    then have t: "take 5 key = units ''Ctrl+''"
      using length_ctrl by (auto simp: prefix_def)
    have n: "\<not> ctrl_letter_prefix lc key" using assms by (simp add: unrecognised_def)
    show ?thesis
    proof (cases "lc (drop 5 key)")
      case Nil
      then show ?thesis using True fallback
        by (simp add: convertKeySequence_def Let_def charCodeAt0_def)
    next
      case (Cons c rest)
      then have "\<not> lower_letter c" using n t by (simp add: ctrl_letter_prefix_def)
      then have "\<not> (1 \<le> int c - 96 \<and> int c - 96 \<le> 26)"
        by (auto simp: lower_letter_def)
      then show ?thesis using True fallback Cons
        by (auto simp: convertKeySequence_def Let_def charCodeAt0_def)
    qed
  qed
qed

lemma convert_ctrl_letter:
  assumes "take 5 key = units ''Ctrl+''" and "lc (drop 5 key) = c # rest" and "lower_letter c"
  shows "convertKeySequence lc key = JsString [c - 96]"
proof -
  have "length key \<ge> 5"
  proof (rule ccontr)
    assume "\<not> 5 \<le> length key"
    then have "length (take 5 key) < 5" by simp
    then show False using assms(1) length_ctrl by simp
  qed
  then have p: "prefix (units ''Ctrl+'') key"
    using assms(1) by (metis take_is_prefix)
  have r: "1 \<le> int c - 96 \<and> int c - 96 \<le> 26" using assms(3) by (auto simp: lower_letter_def)
  have "nat (int c - 96) = c - 96" by simp
  then show ?thesis using p assms(2) r
    by (simp add: convertKeySequence_def Let_def charCodeAt0_def)
qed

lemma letters_first:
  "lower_letter c \<or> upper_letter c \<Longrightarrow>
   letters_toLowerCase (c # rest) = (if upper_letter c then c + 32 else c) # letters_toLowerCase rest"
  by (auto simp: letters_toLowerCase_def lower_unit_def lower_letter_def upper_letter_def)

lemma convert_ascii_letter:
  assumes "lower_letter c \<or> upper_letter c"
    and "lc (c # rest) = (if upper_letter c then c + 32 else c) # lowered"
  shows "convertKeySequence lc (units ''Ctrl+'' @ c # rest) =
           JsString [(if upper_letter c then c + 32 else c) - 96]"
proof -
  have "lower_letter (if upper_letter c then c + 32 else c)"
    using assms(1) by (auto simp: lower_letter_def upper_letter_def)
  then show ?thesis
    using convert_ctrl_letter [of "units ''Ctrl+'' @ c # rest" lc
        "if upper_letter c then c + 32 else c" lowered] assms(2) length_ctrl
    by simp
qed

lemma write_unrecognised:
  "list_all (unrecognised lc) keys \<Longrightarrow> write_keys lc w keys = (None, w @ keys)"
  by (induction keys arbitrary: w) (simp_all add: convert_unrecognised)

lemma units_Ctrl: "units ''Ctrl+'' = [67, 116, 114, 108, 43]"
  by (simp add: units_def)

lemma unrecognised_Ctrl_1: "unrecognised letters_toLowerCase (units ''Ctrl+1'')"
  by (simp add: unrecognised_def keyMap_def objectPrototypeKeys_def ctrl_letter_prefix_def
      letters_toLowerCase_def lower_unit_def lower_letter_def upper_letter_def units_def ESC_def)

text \<open>
  C9, as the claim states it, fails: \<open>Ctrl+C\<close> is no named key and is not \<open>Ctrl+\<close> followed
  by a letter \<open>a\<close> to \<open>z\<close>, and it is converted to the character of code 3; \<open>Ctrl+ab\<close>,
  where more than one letter follows, is converted to the character of code 1; and
  \<open>Ctrl+\<close> followed by the Kelvin sign, which lower-cases to \<open>k\<close>, is converted to the
  character of code 11.
\<close>

theorem convertKeySequence_counterexample:
  "map_of keyMap (units ''Ctrl+C'') = None \<and> \<not> ctrl_lower_letter (units ''Ctrl+C'') \<and>
   convertKeySequence letters_toLowerCase (units ''Ctrl+C'') = JsString [3] \<and>
   convertKeySequence letters_toLowerCase (units ''Ctrl+C'') \<noteq> JsString (units ''Ctrl+C'') \<and>
   map_of keyMap (units ''Ctrl+ab'') = None \<and> \<not> ctrl_lower_letter (units ''Ctrl+ab'') \<and>
   convertKeySequence letters_toLowerCase (units ''Ctrl+ab'') = JsString [1] \<and>
   convertKeySequence letters_toLowerCase (units ''Ctrl+ab'') \<noteq> JsString (units ''Ctrl+ab'') \<and>
   map_of keyMap kelvin_key = None \<and> \<not> ctrl_lower_letter kelvin_key \<and>
   convertKeySequence letters_toLowerCase kelvin_key = JsString [11] \<and>
   convertKeySequence letters_toLowerCase kelvin_key \<noteq> JsString kelvin_key"
  by (simp add: keyMap_def objectPrototypeKeys_def ctrl_lower_letter_def kelvin_key_def
      convertKeySequence_def keyMap_get_def charCodeAt0_def Let_def
      letters_toLowerCase_def lower_unit_def lower_letter_def upper_letter_def units_def ESC_def)

text \<open>
  C9 (amended): for every key string that is no named key of the lookup table, is not
  \<open>Ctrl+\<close> followed by text whose lower-case form (\<open>toLowerCase\<close>, whatever it maps) begins
  with a letter \<open>a\<close> to \<open>z\<close>, and is not the name of a property inherited from
  \<open>Object.prototype\<close>, \<open>convertKeySequence\<close> returns the string unchanged; so a send-keys
  request with such keys, on a live session with an input handle, writes each key name
  verbatim, in order (\<open>Ctrl+1\<close> is written as its six characters). Every key that is
  \<open>Ctrl+\<close> followed by text whose lower-case form begins with a letter \<open>a\<close> to \<open>z\<close> is
  converted to the control character of that letter, of code 1 to 26; in particular every
  key that starts with \<open>Ctrl+\<close> and a letter \<open>a\<close> to \<open>z\<close> or \<open>A\<close> to \<open>Z\<close>, whatever follows
  the letter, given that \<open>toLowerCase\<close> turns that first letter into its small letter.
\<close>

theorem unrecognised_keys_verbatim:
  "(unrecognised lc key \<longrightarrow> convertKeySequence lc key = JsString key) \<and>
   (list_all (unrecognised lc) keys \<and> keys \<noteq> [] \<and> i \<noteq> [] \<and> reg i = Some s \<and> \<not> exited s \<and>
    stdin s = Some w \<longrightarrow>
      sendKeysToSession lc write_error reg (Some i) (Some keys) =
        (ActionSuccess (toProcessInfo s), reg(i \<mapsto> s\<lparr>stdin := Some (w @ keys)\<rparr>))) \<and>
   (take 5 key = units ''Ctrl+'' \<and> lc (drop 5 key) = c # rest \<and> lower_letter c \<longrightarrow>
      convertKeySequence lc key = JsString [c - 96]) \<and>
   ((lower_letter a \<or> upper_letter a) \<and>
    lc (a # tl_units) = (if upper_letter a then a + 32 else a) # lowered \<longrightarrow>
      convertKeySequence lc (units ''Ctrl+'' @ a # tl_units) =
        JsString [(if upper_letter a then a + 32 else a) - 96])"
proof -
  have verbatim: "unrecognised lc key \<longrightarrow> convertKeySequence lc key = JsString key"
    by (simp add: convert_unrecognised)
  have sent: "list_all (unrecognised lc) keys \<and> keys \<noteq> [] \<and> i \<noteq> [] \<and> reg i = Some s \<and>
      \<not> exited s \<and> stdin s = Some w \<longrightarrow>
      sendKeysToSession lc write_error reg (Some i) (Some keys) =
        (ActionSuccess (toProcessInfo s), reg(i \<mapsto> s\<lparr>stdin := Some (w @ keys)\<rparr>))"
    by (simp add: sendKeysToSession_def falsy_string_def getSession_def write_unrecognised)
  have converted: "take 5 key = units ''Ctrl+'' \<and> lc (drop 5 key) = c # rest \<and> lower_letter c \<longrightarrow>
      convertKeySequence lc key = JsString [c - 96]"
    by (blast intro: convert_ctrl_letter)
  have letters: "(lower_letter a \<or> upper_letter a) \<and>
      lc (a # tl_units) = (if upper_letter a then a + 32 else a) # lowered \<longrightarrow>
      convertKeySequence lc (units ''Ctrl+'' @ a # tl_units) =
        JsString [(if upper_letter a then a + 32 else a) - 96]"
    by (blast intro: convert_ascii_letter)
  show ?thesis using verbatim sent converted letters by (intro conjI)
qed


theorem unrecognised_keys_verbatim_witness:
  "convertKeySequence letters_toLowerCase (units ''Ctrl+1'') = JsString (units ''Ctrl+1'') \<and>
   sendKeysToSession letters_toLowerCase (\<lambda>name. ''TypeError'') live_registry (Some ''s2'')
       (Some [units ''Ctrl+1'']) =
     (ActionSuccess (toProcessInfo live_session),
      live_registry(''s2'' \<mapsto> live_session\<lparr>stdin := Some [units ''Ctrl+1'']\<rparr>)) \<and>
   convertKeySequence letters_toLowerCase (units ''Ctrl+'' @ 0x212A # units ''x'') = JsString [11] \<and>
   convertKeySequence letters_toLowerCase (units ''Ctrl+'' @ 67 # units ''at'') = JsString [3]"
proof -
  note inst = unrecognised_keys_verbatim
      [where lc = letters_toLowerCase and key = "units ''Ctrl+1''"
         and keys = "[units ''Ctrl+1'']" and i = "''s2''" and reg = live_registry
         and s = live_session and w = "[]" and write_error = "\<lambda>name. ''TypeError''"
         and c = 0 and rest = "[]" and a = 67 and tl_units = "units ''at''"
         and lowered = "letters_toLowerCase (units ''at'')"]
  note kelvin = unrecognised_keys_verbatim
      [where lc = letters_toLowerCase and key = "units ''Ctrl+'' @ 0x212A # units ''x''"
         and keys = "[]" and i = "''s2''" and reg = live_registry
         and s = live_session and w = "[]" and write_error = "\<lambda>name. ''TypeError''"
         and c = 107 and rest = "units ''x''" and a = 67 and tl_units = "units ''at''"
         and lowered = "letters_toLowerCase (units ''at'')"]
  have "convertKeySequence letters_toLowerCase (units ''Ctrl+1'') = JsString (units ''Ctrl+1'')"
    using inst unrecognised_Ctrl_1 by blast
  moreover have "sendKeysToSession letters_toLowerCase (\<lambda>name. ''TypeError'') live_registry
       (Some ''s2'') (Some [units ''Ctrl+1'']) =
     (ActionSuccess (toProcessInfo live_session),
      live_registry(''s2'' \<mapsto> live_session\<lparr>stdin := Some [units ''Ctrl+1'']\<rparr>))"
    using inst unrecognised_Ctrl_1 by (simp add: live_registry_def live_session_def)
  moreover have "convertKeySequence letters_toLowerCase (units ''Ctrl+'' @ 0x212A # units ''x'')
      = JsString [11]"
    using kelvin
    by (simp add: units_Ctrl letters_toLowerCase_def lower_unit_def lower_letter_def
        upper_letter_def units_def)
  moreover have "convertKeySequence letters_toLowerCase (units ''Ctrl+'' @ 67 # units ''at'')
      = JsString [3]"
    using inst letters_first [of 67 "units ''at''"]
    by (simp add: lower_letter_def upper_letter_def)
  ultimately show ?thesis by (intro conjI)
qed

section \<open>Properties of the file executor\<close>

lemma indexOf_from_absent: "(indexOf_from k s pat = - 1) = (\<not> sublist pat s)"
proof (induction s arbitrary: k)
  case Nil
  then show ?case by simp
next
  case (Cons c cs)
  show ?case
  proof (cases "prefix pat (c # cs)")
    case True
    then show ?thesis by (auto dest: prefix_imp_sublist)
  next
    case False
    then show ?thesis using Cons.IH [of "Suc k"] by (simp add: sublist_Cons_right)
  qed
qed

lemma indexOf_from_first:
  assumes "s = pre @ pat @ post"
    and "\<And>pre' post'. s = pre' @ pat @ post' \<Longrightarrow> length pre \<le> length pre'"
  shows "indexOf_from k s pat = int (k + length pre)"
  using assms
proof (induction s arbitrary: k pre)
  case Nil
  then show ?case by simp
next
  case (Cons c cs)
  show ?case
  proof (cases "prefix pat (c # cs)")
    case True
    then obtain post' where "c # cs = [] @ pat @ post'" by (auto simp: prefix_def)
    then have "length pre \<le> length ([] :: 'a list)" by (rule Cons.prems(2))
    then show ?thesis using True by simp
  next
    case False
    then have "pre \<noteq> []" using Cons.prems(1) by (auto simp: prefix_def)
    then obtain pre0 where pre: "pre = c # pre0" using Cons.prems(1) by (cases pre) auto
    then have cs: "cs = pre0 @ pat @ post" using Cons.prems(1) by simp
    have least: "length pre0 \<le> length p'" if "cs = p' @ pat @ q'" for p' q'
    proof -
      have "c # cs = (c # p') @ pat @ q'" using that by simp
      then have "length pre \<le> length (c # p')" by (rule Cons.prems(2))
      then show ?thesis using pre by simp
    qed
    have "indexOf_from (Suc k) cs pat = int (Suc k + length pre0)"
      using cs least by (rule Cons.IH)
    then show ?thesis using False pre by simp
  qed
qed

text \<open>
  C5, as the claim states it, fails: \<open>edit\<close> looks for the first match with \<open>indexOf\<close> and
  does not require it to be the only one, and a repeated edit need not fail. On the
  content \<open>bb\<close>, where \<open>b\<close> occurs twice, the edit of \<open>b\<close> to \<open>X\<close> succeeds and gives \<open>Xb\<close>,
  and the same edit succeeds again. On \<open>abc\<close>, where \<open>b\<close> occurs once, the edit of \<open>b\<close> to
  \<open>bb\<close> succeeds and gives \<open>abbc\<close>, and the same edit succeeds again.
\<close>

theorem edit_counterexample:
  "occurrences ''b'' ''bb'' = [0, 1] \<and>
   fst (edit flat_paths ''/w'' bb_fs b_to_X) = FileSuccess \<and>
   content_at flat_paths ''/w'' (snd (edit flat_paths ''/w'' bb_fs b_to_X)) ''f'' = Some ''Xb'' \<and>
   fst (edit flat_paths ''/w'' (snd (edit flat_paths ''/w'' bb_fs b_to_X)) b_to_X) = FileSuccess \<and>
   occurrences ''b'' ''abc'' = [1] \<and>
   fst (edit flat_paths ''/w'' abc_fs b_to_bb) = FileSuccess \<and>
   content_at flat_paths ''/w'' (snd (edit flat_paths ''/w'' abc_fs b_to_bb)) ''f'' = Some ''abbc'' \<and>
   fst (edit flat_paths ''/w'' (snd (edit flat_paths ''/w'' abc_fs b_to_bb)) b_to_bb) = FileSuccess"
  by code_simp

text \<open>
  C5 (amended): for every file content and \<open>edit(path, oldText, newText)\<close> on a valid path
  of a file: the edit succeeds exactly when \<open>oldText\<close> occurs in the content, once or more
  often, and then the new content is the original with the first occurrence replaced by
  \<open>newText\<close> (\<open>abc\<close> with \<open>b\<close> and \<open>XY\<close> gives \<open>aXYc\<close>); when \<open>oldText\<close> does not occur the
  edit fails with the not-found error and the file system is unchanged. Hence the same
  edit repeated after a successful one fails exactly when \<open>oldText\<close> does not occur in the
  new content (as in the example, where \<open>b\<close> does not occur in \<open>aXYc\<close>).
\<close>

theorem edit_replaces_first_occurrence:
  assumes c: "content_at lib rootPath fs (path payload) = Some content"
  shows "fst (edit lib rootPath fs payload) =
           (if sublist (oldText payload) content then FileSuccess
            else FileFailure ''Old text not found in file'') \<and>
         (\<not> sublist (oldText payload) content \<longrightarrow> snd (edit lib rootPath fs payload) = fs) \<and>
         (\<forall>pre post. content = pre @ oldText payload @ post \<and>
             (\<forall>pre' post'. content = pre' @ oldText payload @ post' \<longrightarrow> length pre \<le> length pre')
             \<longrightarrow> content_at lib rootPath (snd (edit lib rootPath fs payload)) (path payload)
                   = Some (pre @ newText payload @ post))"
proof -
  from c obtain validPath where v: "validatePath lib rootPath (path payload) = Some validPath"
    and ne: "validPath \<noteq> []" and f: "fs validPath = Some (RegularFile content)"
    by (auto simp: content_at_def split: option.splits fs_node.splits if_splits)
  have absent: "(indexOf content (oldText payload) = - 1) = (\<not> sublist (oldText payload) content)"
    by (simp add: indexOf_def indexOf_from_absent)
  have p1: "fst (edit lib rootPath fs payload) =
           (if sublist (oldText payload) content then FileSuccess
            else FileFailure ''Old text not found in file'')"
    using v ne f absent by (simp add: edit_def Let_def)
  have p2: "\<not> sublist (oldText payload) content \<longrightarrow> snd (edit lib rootPath fs payload) = fs"
    using v ne f absent by (simp add: edit_def Let_def)
  have p3: "content_at lib rootPath (snd (edit lib rootPath fs payload)) (path payload)
                   = Some (pre @ newText payload @ post)"
    if d: "content = pre @ oldText payload @ post"
      and l: "\<forall>pre' post'. content = pre' @ oldText payload @ post' \<longrightarrow> length pre \<le> length pre'"
    for pre post
  proof -
    have i: "indexOf content (oldText payload) = int (length pre)"
      using indexOf_from_first [of content pre "oldText payload" post 0] d l
      by (simp add: indexOf_def)
    then have "indexOf content (oldText payload) \<noteq> - 1" by simp
    then show ?thesis using v ne f i d
      by (simp add: edit_def Let_def content_at_def substring_def substring_from_def)
  qed
  show ?thesis using p1 p2 p3 by blast
qed

lemma abc_content: "content_at flat_paths ''/w'' abc_fs (path b_to_XY) = Some ''abc''"
  by code_simp

lemma abc_edited:
  "snd (edit flat_paths ''/w'' abc_fs b_to_XY) = [''/w/f'' \<mapsto> RegularFile ''aXYc'']"
  by (simp add: edit_def validatePath_def flat_paths_def abc_fs_def b_to_XY_def indexOf_def
      substring_def substring_from_def Let_def)

lemma aXYc_content:
  "content_at flat_paths ''/w'' (snd (edit flat_paths ''/w'' abc_fs b_to_XY)) (path b_to_XY)
     = Some ''aXYc''"
  by (simp add: abc_edited) (simp add: content_at_def validatePath_def flat_paths_def b_to_XY_def)

lemma b_first_in_abc:
  "\<forall>pre' post'. ''abc'' = pre' @ oldText b_to_XY @ post' \<longrightarrow> length ''a'' \<le> length pre'"
proof (intro allI impI)
  fix pre' post' :: string
  assume "''abc'' = pre' @ oldText b_to_XY @ post'"
  then show "length ''a'' \<le> length pre'"
    by (cases pre') (simp_all add: b_to_XY_def)
qed

lemma b_in_abc: "sublist (oldText b_to_XY) ''abc''"
  by code_simp

lemma b_not_in_aXYc: "\<not> sublist (oldText b_to_XY) ''aXYc''"
  by code_simp

lemma abc_split: "''abc'' = ''a'' @ oldText b_to_XY @ ''c''"
  by (simp add: b_to_XY_def)

theorem edit_replaces_first_occurrence_witness:
  "fst (edit flat_paths ''/w'' abc_fs b_to_XY) = FileSuccess \<and>
   content_at flat_paths ''/w'' (snd (edit flat_paths ''/w'' abc_fs b_to_XY)) (path b_to_XY)
     = Some ''aXYc'' \<and>
   fst (edit flat_paths ''/w'' (snd (edit flat_paths ''/w'' abc_fs b_to_XY)) b_to_XY)
     = FileFailure ''Old text not found in file'' \<and>
   snd (edit flat_paths ''/w'' (snd (edit flat_paths ''/w'' abc_fs b_to_XY)) b_to_XY)
     = snd (edit flat_paths ''/w'' abc_fs b_to_XY)"
proof -
  note first = edit_replaces_first_occurrence [OF abc_content]
  note second = edit_replaces_first_occurrence [OF aXYc_content]
  have "fst (edit flat_paths ''/w'' abc_fs b_to_XY) = FileSuccess"
    using first b_in_abc by simp
  moreover have "content_at flat_paths ''/w'' (snd (edit flat_paths ''/w'' abc_fs b_to_XY))
      (path b_to_XY) = Some (''a'' @ newText b_to_XY @ ''c'')"
    using first abc_split b_first_in_abc by blast
  moreover have "fst (edit flat_paths ''/w'' (snd (edit flat_paths ''/w'' abc_fs b_to_XY)) b_to_XY)
      = FileFailure ''Old text not found in file''"
    using second b_not_in_aXYc by simp
  moreover have "snd (edit flat_paths ''/w'' (snd (edit flat_paths ''/w'' abc_fs b_to_XY)) b_to_XY)
      = snd (edit flat_paths ''/w'' abc_fs b_to_XY)"
    using second b_not_in_aXYc by blast
  ultimately show ?thesis by (simp add: b_to_XY_def)
qed

section \<open>Properties of the actuator's send\<close>

text \<open>
  C10: for every outbound message, when the socket is null or not in the \<open>OPEN\<close> state,
  \<open>send\<close> and \<open>sendResult\<close> return the actuator unchanged: nothing is handed to the socket
  and nothing is stored. So a command result produced while the agent is disconnected is
  dropped: the socket opened by the next reconnection has no frame.
\<close>

theorem send_discards_when_not_open:
  assumes "\<not> ws_open a"
  shows "send a msg = a \<and> sendResult a i status result = a \<and>
         frames_of (on_open (connect (on_close (sendResult a i status result)) constructed)) = []"
  using assms
  by (auto simp: ws_open_def send_def sendResult_def on_open_def connect_def on_close_def
      frames_of_def split: option.splits)

lemma closing_not_open: "\<not> ws_open closing_actuator"
  by (simp add: closing_actuator_def ws_open_def)

theorem send_discards_when_not_open_witness:
  "sendResult closing_actuator ''c1'' Completed ''out'' = closing_actuator \<and>
   send closing_actuator (Pong 5) = closing_actuator \<and>
   frames_of (on_open (connect (on_close (sendResult closing_actuator ''c1'' Completed ''out''))
     True)) = []"
  using send_discards_when_not_open
          [where a = closing_actuator and msg = "Pong 5" and i = "''c1''" and status = Completed
             and result = "''out''" and constructed = True, OF closing_not_open]
  by blast

section \<open>Properties of the reconnection schedule\<close>

lemma schedule_unbounded:
  "maxAttempts m = \<infinity> \<Longrightarrow>
   schedule m rnd = (True, m\<lparr>attempt := attempt m + 1, reconnect_timer := Some (delay_of m rnd)\<rparr>)"
  by (simp add: schedule_def Let_def)

lemma delays_unbounded:
  "maxAttempts m = \<infinity> \<Longrightarrow> n < length rnds \<Longrightarrow>
   length (delays m rnds) = length rnds \<and>
   delays m rnds ! n = min (baseMs m * 2 ^ (attempt m + n) + rnds ! n * 1000) (maxMs m)"
proof (induction rnds arbitrary: m n)
  case Nil
  then show ?case by simp
next
  case (Cons r rs)
  let ?m' = "m\<lparr>attempt := attempt m + 1, reconnect_timer := Some (delay_of m r)\<rparr>"
  have s: "schedule m r = (True, ?m')" using Cons.prems(1) by (rule schedule_unbounded)
  have d: "delays m (r # rs) = delay_of m r # delays ?m' rs" by (simp add: s)
  have len: "length (delays ?m' rs) = length rs"
  proof (cases rs)
    case Nil
    then show ?thesis by simp
  next
    case (Cons a as)
    then have "0 < length rs" by simp
    then show ?thesis using Cons.IH [of ?m' 0] Cons.prems(1) by simp
  qed
  show ?case
  proof (cases n)
    case 0
    then show ?thesis using d len by (simp add: delay_of_def)
  next
    case (Suc k)
    then have "k < length rs" using Cons.prems(2) by simp
    then have "delays ?m' rs ! k =
        min (baseMs ?m' * 2 ^ (attempt ?m' + k) + rs ! k * 1000) (maxMs ?m')"
      using Cons.IH [of ?m' k] Cons.prems(1) by simp
    then show ?thesis using d len Suc by simp
  qed
qed

lemma default_manager_fields:
  "attempt default_manager = 0" "baseMs default_manager = 1000"
  "maxMs default_manager = 30000" "maxAttempts default_manager = \<infinity>"
  by (simp_all add: default_manager_def new_ReconnectManager_def default_options_def)

lemma default_delay:
  assumes "n < length rnds"
  shows "length (delays default_manager rnds) = length rnds \<and>
         delays default_manager rnds ! n = min (1000 * 2 ^ n + rnds ! n * 1000) 30000"
  using delays_unbounded [of default_manager n rnds] assms
  by (simp add: default_manager_fields)

lemma pow_ge_32: "5 \<le> n \<Longrightarrow> (32::real) \<le> 2 ^ n"
proof -
  assume "5 \<le> n"
  then have "(2::real) ^ 5 \<le> 2 ^ n" by (intro power_increasing) simp_all
  then show ?thesis by simp
qed

lemma pow_le_16: "n \<le> 4 \<Longrightarrow> (2::real) ^ n \<le> 16"
proof -
  assume "n \<le> 4"
  then have "(2::real) ^ n \<le> 2 ^ 4" by (intro power_increasing) simp_all
  then show ?thesis by simp
qed

lemma default_capped:
  assumes "unit_interval r" and "5 \<le> n"
  shows "min (1000 * 2 ^ n + r * 1000) 30000 = (30000::real)"
proof -
  have "(32::real) \<le> 2 ^ n" using assms(2) by (rule pow_ge_32)
  then have "(32000::real) \<le> 1000 * 2 ^ n" by simp
  moreover have "0 \<le> r * 1000" using assms(1) by (simp add: unit_interval_def)
  ultimately show ?thesis by (simp add: min_def)
qed

lemma default_increasing:
  assumes "unit_interval r" and "unit_interval r'" and "n < 5"
  shows "min (1000 * 2 ^ n + r * 1000) 30000 < min (1000 * 2 ^ Suc n + r' * 1000) (30000::real)"
proof -
  have le: "(2::real) ^ n \<le> 16" using assms(3) by (intro pow_le_16) simp
  have r: "r * 1000 < 1000" "0 \<le> r' * 1000"
    using assms(1,2) by (simp_all add: unit_interval_def)
  have one: "(1::real) \<le> 2 ^ n" by simp
  have x: "(1000::real) \<le> 1000 * 2 ^ n" using one by simp
  have y: "1000 * 2 ^ Suc n = 1000 * 2 ^ n + 1000 * (2::real) ^ n" by simp
  have a: "1000 * 2 ^ n + r * 1000 < 1000 * 2 ^ Suc n + r' * 1000"
    unfolding y using r x by linarith
  have b: "1000 * 2 ^ n + r * 1000 < (30000::real)" using le r by simp
  show ?thesis using a b by (simp add: min_def)
qed

text \<open>
  C7: \<open>schedule\<close> refuses (returns false and changes nothing) when the attempt counter has
  reached the ceiling; below it, with the 0-based attempt count \<open>n\<close>, it sets the timer to
  \<open>min (base * 2 ^ n + jitter) max_delay\<close>, where the jitter is \<open>1000\<close> times a random number
  of \<open>[0, 1)\<close>, and counts the attempt. The defaults are base 1000, maximum 30000 and no
  ceiling. With them, whatever the jitters: no call is refused, the delay of attempt \<open>n\<close>
  is below that of attempt \<open>n + 1\<close> for \<open>n < 5\<close> (so the delays increase strictly up to the
  cap, for each run and hence in expectation), and from \<open>n = 5\<close> on, the 6th attempt, the
  delay is exactly 30000.
\<close>

theorem backoff_delay:
  "schedule m rnd =
     (if enat (attempt m) < maxAttempts m
      then (True, m\<lparr>attempt := attempt m + 1,
                     reconnect_timer := Some (min (baseMs m * 2 ^ attempt m + rnd * 1000) (maxMs m))\<rparr>)
      else (False, m)) \<and>
   baseMs default_manager = 1000 \<and> maxMs default_manager = 30000 \<and>
   maxAttempts default_manager = \<infinity> \<and>
   (list_all unit_interval rnds \<and> n < length rnds \<longrightarrow>
      length (delays default_manager rnds) = length rnds \<and>
      delays default_manager rnds ! n = min (1000 * 2 ^ n + rnds ! n * 1000) 30000 \<and>
      (5 \<le> n \<longrightarrow> delays default_manager rnds ! n = 30000) \<and>
      (n < 5 \<and> Suc n < length rnds \<longrightarrow>
         delays default_manager rnds ! n < delays default_manager rnds ! Suc n))"
proof -
  have sched: "schedule m rnd =
     (if enat (attempt m) < maxAttempts m
      then (True, m\<lparr>attempt := attempt m + 1,
                     reconnect_timer := Some (min (baseMs m * 2 ^ attempt m + rnd * 1000) (maxMs m))\<rparr>)
      else (False, m))"
    by (auto simp: schedule_def delay_of_def Let_def)
  have run: "length (delays default_manager rnds) = length rnds \<and>
      delays default_manager rnds ! n = min (1000 * 2 ^ n + rnds ! n * 1000) 30000 \<and>
      (5 \<le> n \<longrightarrow> delays default_manager rnds ! n = 30000) \<and>
      (n < 5 \<and> Suc n < length rnds \<longrightarrow>
         delays default_manager rnds ! n < delays default_manager rnds ! Suc n)"
    if all: "list_all unit_interval rnds" and n: "n < length rnds"
  proof -
    have u: "unit_interval (rnds ! k)" if "k < length rnds" for k
      using all that by (simp add: list_all_length)
    have d: "delays default_manager rnds ! n = min (1000 * 2 ^ n + rnds ! n * 1000) 30000"
      and len: "length (delays default_manager rnds) = length rnds"
      using default_delay [OF n] by simp_all
    have cap: "delays default_manager rnds ! n = 30000" if "5 \<le> n"
      using d default_capped [OF u [OF n] that] by simp
    have inc: "delays default_manager rnds ! n < delays default_manager rnds ! Suc n"
      if small: "n < 5" and s: "Suc n < length rnds"
    proof -
      have dS: "delays default_manager rnds ! Suc n =
          min (1000 * 2 ^ Suc n + rnds ! Suc n * 1000) 30000"
        using default_delay [OF s] by blast
      show ?thesis unfolding d dS by (rule default_increasing [OF u [OF n] u [OF s] small])
    qed
    show ?thesis using len d cap inc by blast
  qed
  show ?thesis using sched run by (simp only: default_manager_fields) blast
qed

lemma example_rnds_unit: "list_all unit_interval example_rnds"
  by (simp add: example_rnds_def unit_interval_def)

lemma example_rnds_nth:
  "length example_rnds = 7" "example_rnds ! 2 = 1 / 4" "example_rnds ! 5 = 1 / 10"
  by (simp_all add: example_rnds_def)

theorem backoff_delay_witness:
  "schedule exhausted_manager (1 / 2) = (False, exhausted_manager) \<and>
   fst (schedule default_manager (1 / 2)) = True \<and>
   reconnect_timer (snd (schedule default_manager (1 / 2))) = Some 1500 \<and>
   delays default_manager example_rnds ! 2 = 4250 \<and>
   delays default_manager example_rnds ! 2 < delays default_manager example_rnds ! 3 \<and>
   delays default_manager example_rnds ! 5 = 30000"
proof -
  have "schedule exhausted_manager (1 / 2) = (False, exhausted_manager)"
    using backoff_delay [where m = exhausted_manager and rnd = "1 / 2" and rnds = "[]" and n = 0]
    by (simp add: exhausted_manager_def new_ReconnectManager_def numeral_eq_enat)
  moreover have "schedule default_manager (1 / 2) =
      (True, default_manager\<lparr>attempt := 1, reconnect_timer := Some 1500\<rparr>)"
    using backoff_delay [where m = default_manager and rnd = "1 / 2" and rnds = "[]" and n = 0]
    by (simp add: default_manager_fields)
  moreover have "delays default_manager example_rnds ! 2 = 4250 \<and>
      delays default_manager example_rnds ! 2 < delays default_manager example_rnds ! 3"
    using backoff_delay [where rnds = example_rnds and n = 2 and m = default_manager and rnd = 0]
      example_rnds_unit
    by (simp add: example_rnds_nth)
  moreover have "delays default_manager example_rnds ! 5 = 30000"
    using backoff_delay [where rnds = example_rnds and n = 5 and m = default_manager and rnd = 0]
      example_rnds_unit
    by (simp add: example_rnds_nth)
  ultimately show ?thesis by simp
qed

section \<open>Properties of the shell executor\<close>

lemma on_error_fields:
  "calls (on_error st msg) =
     (if killed st then calls st else calls st @ [OnError (ProcessError msg)])"
  "killed (on_error st msg) = killed st"
  "handlers (on_error st msg) = handlers st"
  "startTime (on_error st msg) = startTime st"
  "timer (on_error st msg) = False"
  by (simp_all add: on_error_def clear_timers_def Let_def)

lemma on_exit_fields:
  "calls (on_exit st code sig reported now) =
     (if killed st then calls st else calls st @ [OnDone reported (now - startTime st)])"
  "killed (on_exit st code sig reported now) = killed st"
  "handlers (on_exit st code sig reported now) = handlers st"
  "startTime (on_exit st code sig reported now) = startTime st"
  "timer (on_exit st code sig reported now) = False"
  by (simp_all add: on_exit_def clear_timers_def Let_def)

lemma on_timeout_fields:
  "calls (on_timeout st ok) =
     (if killed st then calls st else calls st @ [OnError (TimedOut (timeoutSeconds st))])"
  "killed (on_timeout st ok) = True"
  "handlers (on_timeout st ok) = handlers st"
  "timer (on_timeout st ok) = timer st"
  by (simp_all add: on_timeout_def Let_def)

lemma on_yield_fields:
  "calls (on_yield st) =
     (if \<not> killed st \<and> \<not> session_exited st then calls st @ [OnYield] else calls st)"
  "killed (on_yield st) = killed st"
  "handlers (on_yield st) = handlers st"
  "timer (on_yield st) = timer st"
  by (simp_all add: on_yield_def)

lemma on_grace_fields:
  "calls (on_grace st) = calls st"
  "killed (on_grace st) = killed st"
  "handlers (on_grace st) = handlers st"
  "timer (on_grace st) = timer st"
  by (simp_all add: on_grace_def)

lemma on_data_fields:
  "calls (on_data st chunk cb) = calls st @ [cb]"
  "killed (on_data st chunk cb) = killed st"
  "handlers (on_data st chunk cb) = handlers st"
  "timer (on_data st chunk cb) = timer st"
  by (simp_all add: on_data_def)

lemmas handler_fields =
  on_error_fields on_exit_fields on_timeout_fields on_yield_fields on_grace_fields
  on_data_fields

subsection \<open>The guarded paths\<close>

text \<open>
  When the child emits at most one end event (one exit, or one close, or one error), the
  \<open>killed\<close> flag and the cleared timer keep the terminal outcomes to at most one, whatever
  the order of the timers, the data and that event.
\<close>

lemma settled_step:
  assumes "settled st (e # evs)" and "length (filter proc_end (e # evs)) \<le> 1"
  shows "settled (handle_event st e) evs"
proof (cases e)
  case (TimeoutFires ok)
  then show ?thesis using assms
    by (auto simp: settled_def terminal_calls_def handler_fields)
next
  case YieldFires
  then show ?thesis using assms
    by (auto simp: settled_def terminal_calls_def handler_fields)
next
  case GraceFires
  then show ?thesis using assms
    by (auto simp: settled_def terminal_calls_def handler_fields)
next
  case (PtyData c)
  then show ?thesis using assms
    by (auto simp: settled_def terminal_calls_def handler_fields)
next
  case (PtyExit c s n)
  then show ?thesis using assms
    by (auto simp: settled_def terminal_calls_def handler_fields split: if_splits)
next
  case (StdoutData c)
  then show ?thesis using assms
    by (auto simp: settled_def terminal_calls_def handler_fields)
next
  case (StderrData c)
  then show ?thesis using assms
    by (auto simp: settled_def terminal_calls_def handler_fields)
next
  case (ProcClose c s n)
  then show ?thesis using assms
    by (auto simp: settled_def terminal_calls_def handler_fields split: if_splits)
next
  case (ProcError m)
  then show ?thesis using assms
    by (auto simp: settled_def terminal_calls_def handler_fields split: if_splits)
qed

lemma settled_run:
  "settled st evs \<Longrightarrow> length (filter proc_end evs) \<le> 1 \<Longrightarrow>
   length (terminal_calls (run_events st evs)) \<le> 1"
proof (induction evs arbitrary: st)
  case Nil
  then show ?case by (auto simp: run_events_def settled_def)
next
  case (Cons e evs)
  have "settled (handle_event st e) evs" using Cons.prems by (rule settled_step)
  moreover have "length (filter proc_end evs) \<le> 1"
    using Cons.prems(2) by (simp split: if_splits)
  ultimately have "length (terminal_calls (run_events (handle_event st e) evs)) \<le> 1"
    by (rule Cons.IH)
  then show ?case by (simp add: run_events_def)
qed

lemma settled_start: "settled (executeShell env opts hasOnYield slug now reg) evs"
  by (cases "spawnResult env")
     (simp_all add: settled_def executeShell_def addSession_def Let_def terminal_calls_def)

lemma one_outcome_for_one_end_event:
  "length (filter proc_end evs) \<le> 1 \<Longrightarrow>
   length (terminal_calls (run_events (executeShell env opts hasOnYield slug now reg) evs)) \<le> 1"
  using settled_start by (rule settled_run)

subsection \<open>Error followed by close\<close>

lemma missing_cwd_start:
  "calls (executeShell missing_cwd_env missing_cwd_opts True ''s1'' 0 Map.empty) = []"
  "killed (executeShell missing_cwd_env missing_cwd_opts True ''s1'' 0 Map.empty) = False"
  "handlers (executeShell missing_cwd_env missing_cwd_opts True ''s1'' 0 Map.empty) = ProcListeners"
  "startTime (executeShell missing_cwd_env missing_cwd_opts True ''s1'' 0 Map.empty) = 0"
  by (simp_all add: executeShell_def missing_cwd_env_def missing_cwd_opts_def addSession_def
      Let_def)

lemma error_then_close_calls:
  "calls (run_events (executeShell missing_cwd_env missing_cwd_opts True ''s1'' 0 Map.empty)
            error_then_close)
     = [OnError (ProcessError ''spawn sh ENOENT''), OnDone (- 2) 7]"
  by (simp add: run_events_def error_then_close_def on_error_fields on_exit_fields
      missing_cwd_start)

text \<open>
  C1 does not hold of the code: the \<open>error\<close> and \<open>close\<close> listeners of a process test the
  \<open>killed\<close> flag, which only the timeout sets, so neither stops the other. For the command
  with a missing working directory the child emits \<open>error\<close> and then \<open>close\<close>, and one
  invocation reports two terminal outcomes, \<open>onError\<close> and then \<open>onDone\<close>: two \<open>failed\<close>
  results for one command id, with no yield between them.
\<close>

theorem error_then_close_reports_twice:
  "terminal_calls
     (run_events (executeShell missing_cwd_env missing_cwd_opts True ''s1'' 0 Map.empty)
        error_then_close)
     = [OnError (ProcessError ''spawn sh ENOENT''), OnDone (- 2) 7] \<and>
   statuses
     (run_events (executeShell missing_cwd_env missing_cwd_opts True ''s1'' 0 Map.empty)
        error_then_close)
     = [Failed, Failed]"
  by (simp add: terminal_calls_def statuses_def error_then_close_calls)

section \<open>Exited sessions: the input handle and later output\<close>

lemma cleared_markExited:
  "handles_cleared reg \<Longrightarrow> handles_cleared (snd (markExited reg i code sig))"
  by (cases "reg i") (auto simp: handles_cleared_def markExited_def)

lemma cleared_markBackgrounded:
  "handles_cleared reg \<Longrightarrow> handles_cleared (snd (markBackgrounded reg i))"
  by (cases "reg i") (auto simp: handles_cleared_def markBackgrounded_def)

lemma cleared_appendOutput:
  assumes "handles_cleared reg"
  shows "handles_cleared (snd (appendOutput reg i chunk))"
proof (cases "reg i")
  case None
  then show ?thesis using assms by (simp add: appendOutput_def)
next
  case (Some s)
  then show ?thesis using assms by (auto simp: handles_cleared_def appendOutput_some)
qed

lemma cleared_addSession:
  "handles_cleared reg \<Longrightarrow> handles_cleared (snd (addSession reg slug cmd dir p now))"
  by (auto simp: handles_cleared_def addSession_def Let_def newSession_def)

lemma cleared_apply_op: "handles_cleared reg \<Longrightarrow> handles_cleared (apply_op reg op)"
  by (cases op)
     (simp_all add: cleared_addSession cleared_appendOutput cleared_markExited
        cleared_markBackgrounded)

lemma cleared_run_ops: "handles_cleared (run_ops ops)"
proof -
  have step: "handles_cleared reg \<Longrightarrow> handles_cleared (foldl apply_op reg ops)" for reg
    by (induction ops arbitrary: reg) (simp_all add: cleared_apply_op)
  have "handles_cleared Map.empty" by (simp add: handles_cleared_def)
  then show ?thesis unfolding run_ops_def by (rule step)
qed

lemma cleared_start:
  assumes "handles_cleared reg"
  shows "handles_cleared (session_registry (executeShell env opts hasOnYield slug now reg))"
proof (cases "spawnResult env")
  case (SpawnThrows err)
  have "handles_cleared (snd (markExited (snd (addSession reg slug (opt_command opts)
      (case opt_cwd opts of Some d \<Rightarrow> d | None \<Rightarrow> processCwd env) None now)) slug (Val 1) Undefined))"
    using assms by (intro cleared_markExited cleared_addSession)
  then show ?thesis using SpawnThrows
    by (simp add: executeShell_def addSession_def Let_def)
next
  case (SpawnReturns p)
  then show ?thesis using assms
    by (auto simp: executeShell_def addSession_def Let_def handles_cleared_def newSession_def)
qed

lemma handler_registries:
  "session_registry (on_error st msg) =
     (if killed st then session_registry st
      else snd (markExited (session_registry st) (session_id st) (Val 1) Undefined))"
  "session_registry (on_exit st code sig reported now) =
     (if killed st then session_registry st
      else snd (markExited (session_registry st) (session_id st) code sig))"
  "session_registry (on_timeout st ok) =
     (if killed st then session_registry st
      else snd (markExited (session_registry st) (session_id st) (Val 1) (Val ''SIGTERM'')))"
  "session_registry (on_yield st) =
     (if \<not> killed st \<and> \<not> session_exited st
      then snd (markBackgrounded (session_registry st) (session_id st))
      else session_registry st)"
  "session_registry (on_grace st) = session_registry st"
  "session_registry (on_data st chunk cb) =
     snd (appendOutput (session_registry st) (session_id st) chunk)"
  by (simp_all add: on_error_def on_exit_def on_timeout_def on_yield_def on_grace_def
      on_data_def clear_timers_def Let_def)

lemma cleared_event:
  assumes "handles_cleared (session_registry st)"
  shows "handles_cleared (session_registry (handle_event st e))"
  using assms
  by (cases e)
     (simp_all add: handler_registries cleared_markExited cleared_markBackgrounded
        cleared_appendOutput)

lemma cleared_run_events:
  "handles_cleared (session_registry st) \<Longrightarrow>
   handles_cleared (session_registry (run_events st evs))"
  unfolding run_events_def
  by (induction evs arbitrary: st) (simp_all add: cleared_event)

lemma cleared_sendKeys:
  assumes "handles_cleared reg"
  shows "handles_cleared (snd (sendKeysToSession lc write_error reg sessionId keys))"
  using assms
  by (auto simp: sendKeysToSession_def handles_cleared_def getSession_def Let_def
      split: option.splits prod.splits if_splits)


lemma spawned_start:
  "session_registry spawned_state ''s1'' =
     Some ((newSession ''s1'' ''ls'' ''/home/agent'' None 0)\<lparr>pid := Some 42, stdin := Some []\<rparr>)"
  "killed spawned_state = False"
  "handlers spawned_state = ProcListeners"
  "session_id spawned_state = ''s1''"
  by (simp_all add: spawned_state_def executeShell_def spawned_env_def plain_opts_def
      addSession_def Let_def run_ops_def)

lemma spawned_closed:
  "session_registry (run_events spawned_state [ProcClose (Some 0) None 5]) ''s1'' =
     Some ((newSession ''s1'' ''ls'' ''/home/agent'' None 0)
        \<lparr>pid := Some 42, exited := True, exitCode := Val 0, exitSignal := Undefined,
          stdin := None\<rparr>)"
  by (simp add: run_events_def handler_registries spawned_start markExited_def)

lemma live_s2: "live_registry ''s2'' = Some live_session"
  by (simp add: live_registry_def)

lemma exited_live_s2:
  "exited_live_registry ''s2'' =
     Some (live_session\<lparr>exited := True, exitCode := Val 0, exitSignal := Undefined,
                        stdin := None\<rparr>)"
  by (simp add: exited_live_registry_def live_registry_def markExited_def)

lemma live_cleared: "handles_cleared live_registry"
  by (simp add: handles_cleared_def live_registry_def live_session_def)

text \<open>
  C2, as the claim states it, fails: \<open>appendOutput\<close> does not read the \<open>exited\<close> flag. On the
  session \<open>s1\<close>, created and then marked exited with an empty buffer, a later
  \<open>appendOutput\<close> of \<open>x\<close> changes the aggregated buffer and the tail to \<open>x\<close>.
\<close>

theorem appendOutput_after_exit_counterexample:
  "map_option exited (exited_registry ''s1'') = Some True \<and>
   map_option aggregated (exited_registry ''s1'') = Some [] \<and>
   map_option tail (exited_registry ''s1'') = Some [] \<and>
   map_option aggregated (snd (appendOutput exited_registry ''s1'' ''x'') ''s1'') = Some ''x'' \<and>
   map_option tail (snd (appendOutput exited_registry ''s1'' ''x'') ''s1'') = Some ''x''"
  by (simp add: exited_registry_s1 appendOutput_some)
     (simp add: exited_session_def window_def updateTail_def TAIL_CHARS_def)

text \<open>
  C2 (amended): every session of the registry with \<open>exited\<close> true has its input handle
  cleared: \<open>markExited\<close> sets \<open>exited\<close> and clears the handle, and the property holds of the
  empty registry and is kept by every registry operation, by the start and every event of
  an \<open>executeShell\<close> run and by every send-keys request, so it holds after any run that
  follows any sequence of registry operations. But \<open>appendOutput\<close> does not read \<open>exited\<close>:
  it appends to an exited session as to a live one, the aggregated buffer becoming the
  trailing \<open>maxOutputChars\<close> characters of the old buffer followed by the chunk and the tail
  the trailing 4000 characters of that, and leaves \<open>exited\<close> and the handle as they are.
\<close>

theorem markExited_clears_stdin_appendOutput_appends:
  "(session_registry (run_events (executeShell env opts hasOnYield slug now (run_ops ops)) evs) j
      = Some t \<and> exited t \<longrightarrow> stdin t = None) \<and>
   handles_cleared Map.empty \<and>
   (handles_cleared reg0 \<longrightarrow>
      handles_cleared (apply_op reg0 op) \<and>
      handles_cleared (session_registry (run_events (executeShell env opts hasOnYield slug now reg0) evs)) \<and>
      handles_cleared (snd (sendKeysToSession lc write_error reg0 sessionId keys))) \<and>
   (reg i = Some s \<longrightarrow>
      map_option exited (snd (markExited reg i code sig) i) = Some True \<and>
      map_option stdin (snd (markExited reg i code sig) i) = Some None \<and>
      map_option exited (snd (appendOutput reg i chunk) i) = Some (exited s) \<and>
      map_option stdin (snd (appendOutput reg i chunk) i) = Some (stdin s) \<and>
      map_option aggregated (snd (appendOutput reg i chunk) i) =
        Some (if maxOutputChars s = 0 then aggregated s @ chunk
              else trailing (maxOutputChars s) (aggregated s @ chunk)) \<and>
      map_option tail (snd (appendOutput reg i chunk) i) =
        map_option (trailing TAIL_CHARS \<circ> aggregated) (snd (appendOutput reg i chunk) i))"
proof -
  have kept: "handles_cleared (session_registry (run_events (executeShell env opts hasOnYield slug now r) evs))"
    if "handles_cleared r" for r
    using that by (intro cleared_run_events cleared_start)
  have reached: "session_registry (run_events (executeShell env opts hasOnYield slug now (run_ops ops)) evs) j
      = Some t \<and> exited t \<longrightarrow> stdin t = None"
    using kept [OF cleared_run_ops [of ops]] unfolding handles_cleared_def by blast
  have empty: "handles_cleared Map.empty" by (simp add: handles_cleared_def)
  have steps: "handles_cleared reg0 \<longrightarrow>
      handles_cleared (apply_op reg0 op) \<and>
      handles_cleared (session_registry (run_events (executeShell env opts hasOnYield slug now reg0) evs)) \<and>
      handles_cleared (snd (sendKeysToSession lc write_error reg0 sessionId keys))"
    using kept [of reg0] by (simp add: cleared_apply_op cleared_sendKeys)
  have one: "map_option exited (snd (markExited reg i code sig) i) = Some True \<and>
      map_option stdin (snd (markExited reg i code sig) i) = Some None \<and>
      map_option exited (snd (appendOutput reg i chunk) i) = Some (exited s) \<and>
      map_option stdin (snd (appendOutput reg i chunk) i) = Some (stdin s) \<and>
      map_option aggregated (snd (appendOutput reg i chunk) i) =
        Some (if maxOutputChars s = 0 then aggregated s @ chunk
              else trailing (maxOutputChars s) (aggregated s @ chunk)) \<and>
      map_option tail (snd (appendOutput reg i chunk) i) =
        map_option (trailing TAIL_CHARS \<circ> aggregated) (snd (appendOutput reg i chunk) i)"
    if r: "reg i = Some s"
  proof -
    have exit: "snd (markExited reg i code sig) i =
        Some (s\<lparr>exited := True, exitCode := code, exitSignal := sig, stdin := None\<rparr>)"
      using r by (simp add: markExited_def)
    let ?s' = "updateTail (s\<lparr>aggregated := window (maxOutputChars s) (aggregated s @ chunk)\<rparr>)"
    have app: "snd (appendOutput reg i chunk) i = Some ?s'"
      using r by (simp add: appendOutput_some)
    have "tail ?s' = trailing TAIL_CHARS (aggregated ?s')"
      using updateTail_ok [of "s\<lparr>aggregated := window (maxOutputChars s) (aggregated s @ chunk)\<rparr>"]
      by (simp only: tail_ok_def)
    then show ?thesis
      by (simp add: exit app window_trailing)
  qed
  show ?thesis using reached empty steps one by blast
qed

theorem markExited_clears_stdin_appendOutput_appends_witness:
  "map_option stdin (live_registry ''s2'') = Some (Some []) \<and>
   map_option exited (snd (markExited live_registry ''s2'' (Val 0) Undefined) ''s2'') = Some True \<and>
   map_option stdin (snd (markExited live_registry ''s2'' (Val 0) Undefined) ''s2'') = Some None \<and>
   handles_cleared (apply_op live_registry (MarkExited ''s2'' (Val 0) Undefined)) \<and>
   map_option exited (snd (appendOutput exited_live_registry ''s2'' ''x'') ''s2'') = Some True \<and>
   map_option stdin (snd (appendOutput exited_live_registry ''s2'' ''x'') ''s2'') = Some None \<and>
   map_option aggregated (snd (appendOutput exited_live_registry ''s2'' ''x'') ''s2'') = Some ''x'' \<and>
   map_option stdin (session_registry spawned_state ''s1'') = Some (Some []) \<and>
   map_option exited
     (session_registry (run_events spawned_state [ProcClose (Some 0) None 5]) ''s1'') = Some True \<and>
   map_option stdin
     (session_registry (run_events spawned_state [ProcClose (Some 0) None 5]) ''s1'') = Some None"
proof -
  note live = markExited_clears_stdin_appendOutput_appends
      [where reg = live_registry and i = "''s2''" and s = live_session and code = "Val 0"
         and sig = Undefined and chunk = "''x''" and ?reg0.0 = live_registry
         and op = "MarkExited ''s2'' (Val 0) Undefined" and ops = "[]" and evs = "[]"
         and env = spawned_env and opts = plain_opts and hasOnYield = False
         and slug = "''s1''" and now = 0 and j = "''s1''" and sessionId = None and keys = None]
  note gone = markExited_clears_stdin_appendOutput_appends
      [where reg = exited_live_registry and i = "''s2''"
         and s = "live_session\<lparr>exited := True, exitCode := Val 0, exitSignal := Undefined,
                               stdin := None\<rparr>"
         and code = "Val 0" and sig = Undefined and chunk = "''x''"
         and ?reg0.0 = live_registry and op = "MarkExited ''s2'' (Val 0) Undefined"
         and ops = "[]" and evs = "[ProcClose (Some 0) None 5]"
         and env = spawned_env and opts = plain_opts and hasOnYield = False
         and slug = "''s1''" and now = 0 and j = "''s1''" and sessionId = None and keys = None]
  have a: "map_option stdin (live_registry ''s2'') = Some (Some [])"
    by (simp add: live_s2 live_session_def)
  have b: "map_option exited (snd (markExited live_registry ''s2'' (Val 0) Undefined) ''s2'') = Some True \<and>
      map_option stdin (snd (markExited live_registry ''s2'' (Val 0) Undefined) ''s2'') = Some None \<and>
      handles_cleared (apply_op live_registry (MarkExited ''s2'' (Val 0) Undefined))"
    using live live_s2 live_cleared by blast
  have c: "map_option exited (snd (appendOutput exited_live_registry ''s2'' ''x'') ''s2'') = Some True \<and>
      map_option stdin (snd (appendOutput exited_live_registry ''s2'' ''x'') ''s2'') = Some None \<and>
      map_option aggregated (snd (appendOutput exited_live_registry ''s2'' ''x'') ''s2'') = Some ''x''"
    using gone exited_live_s2 by (simp add: live_session_def trailing_def)
  have d: "map_option stdin (session_registry spawned_state ''s1'') = Some (Some [])"
    by (simp add: spawned_start)
  have e: "map_option exited
       (session_registry (run_events spawned_state [ProcClose (Some 0) None 5]) ''s1'') = Some True"
    by (simp add: spawned_closed)
  have f: "map_option stdin
       (session_registry (run_events spawned_state [ProcClose (Some 0) None 5]) ''s1'') = Some None"
    using gone spawned_closed by (simp add: spawned_state_def)
  show ?thesis using a b c d e f by (intro conjI) blast+
qed

end
